theory Spec2Isabelle
  imports Main "HOL-Library.Sublist"
begin

section \<open>Python string primitives\<close>

text \<open>
  The analysed program is \<^verbatim>\<open>ai_helper.py\<close> (class \<^verbatim>\<open>BountyXAI\<close>). Its strings are
  modelled as \<^typ>\<open>string\<close>, one \<^typ>\<open>char\<close> per code point below 256; on that range
  \<^verbatim>\<open>str.lower\<close>, \<^verbatim>\<open>str.isspace\<close> and the regular expression class \<^verbatim>\<open>\w\<close> are
  the functions below.
\<close>

definition lower_char :: "char \<Rightarrow> char" where
  "lower_char c =
     (let n = (of_char c :: nat)
      in if (65 \<le> n \<and> n \<le> 90) \<or> (192 \<le> n \<and> n \<le> 222 \<and> n \<noteq> 215)
         then char_of (n + 32) else c)"

definition lower :: "string \<Rightarrow> string" where
  "lower s = map lower_char s"

text \<open>\<^verbatim>\<open>sub in s\<close> on strings: \<open>sub\<close> occurs in \<open>s\<close> as a contiguous block.\<close>

fun contains :: "string \<Rightarrow> string \<Rightarrow> bool" where
  "contains sub [] = (sub = [])"
| "contains sub (c # cs) = (prefix sub (c # cs) \<or> contains sub cs)"

definition is_space :: "char \<Rightarrow> bool" where
  "is_space c =
     (let n = (of_char c :: nat)
      in (9 \<le> n \<and> n \<le> 13) \<or> (28 \<le> n \<and> n \<le> 32) \<or> n = 133 \<or> n = 160)"

text \<open>
  \<^verbatim>\<open>key.split()[0]\<close>: the first whitespace-delimited word. The source raises
  \<^verbatim>\<open>IndexError\<close> when there is none; here the result is then empty, and
  \<open>remediation_db_first_words\<close> below shows that no catalog key is in that case.
\<close>

definition first_word :: "string \<Rightarrow> string" where
  "first_word k = takeWhile (\<lambda>c. \<not> is_space c) (dropWhile is_space k)"

definition is_word_char :: "char \<Rightarrow> bool" where
  "is_word_char c =
     (let n = (of_char c :: nat)
      in (48 \<le> n \<and> n \<le> 57) \<or> (65 \<le> n \<and> n \<le> 90) \<or> n = 95 \<or> (97 \<le> n \<and> n \<le> 122)
         \<or> n = 170 \<or> n = 178 \<or> n = 179 \<or> n = 181 \<or> n = 185 \<or> n = 186
         \<or> n = 188 \<or> n = 189 \<or> n = 190
         \<or> (192 \<le> n \<and> n \<noteq> 215 \<and> n \<noteq> 247))"

text \<open>
  \<^verbatim>\<open>re.search(r'\b' + re.escape(w) + r'\b', s)\<close>: the literal \<open>w\<close> occurs at some
  position of \<open>s\<close> with a word boundary on each side. A boundary lies between two
  neighbouring positions of which exactly one holds a word character; beyond either end
  of the text there is none.
\<close>

fun word_at :: "char option \<Rightarrow> bool" where
  "word_at None = False"
| "word_at (Some c) = is_word_char c"

definition boundary :: "char option \<Rightarrow> char option \<Rightarrow> bool" where
  "boundary prev next = (word_at prev \<noteq> word_at next)"

fun head_opt :: "string \<Rightarrow> char option" where
  "head_opt [] = None"
| "head_opt (c # cs) = Some c"

definition match_here :: "string \<Rightarrow> char option \<Rightarrow> string \<Rightarrow> bool" where
  "match_here w prev rest =
     (prefix w rest
      \<and> boundary prev (head_opt rest)
      \<and> boundary (if w = [] then prev else Some (last w)) (head_opt (drop (length w) rest)))"

fun search_from :: "string \<Rightarrow> char option \<Rightarrow> string \<Rightarrow> bool" where
  "search_from w prev [] = match_here w prev []"
| "search_from w prev (c # cs) = (match_here w prev (c # cs) \<or> search_from w (Some c) cs)"

definition re_search_word :: "string \<Rightarrow> string \<Rightarrow> bool" where
  "re_search_word w s = search_from w None s"

section \<open>The remediation catalog\<close>

text \<open>
  \<^verbatim>\<open>remediation_db\<close> of \<^verbatim>\<open>_get_recommendation_for_vulnerability_type\<close>: one
  template per category key, the texts as in the source. The template of a key is the
  constant named \<open>rec_\<close> and the key; the dictionary is the list of pairs
  \<open>remediation_db\<close>, in the order in which the source writes its entries, which is the
  order in which Python iterates them.
\<close>

record template =
  summary :: string
  steps :: "string list"
  code_example :: string
  references :: "string list"

definition rec_sql_injection :: template where
  \<open>rec_sql_injection =
    \<lparr>summary = ''Protect against SQL injection attacks by using parameterized queries and input validation'',
     steps = [''Replace dynamic SQL queries with parameterized queries or prepared statements'',
        ''Implement proper input validation and sanitization for all user inputs'',
        ''Apply the principle of least privilege to database accounts'',
        ''Use an ORM (Object-Relational Mapping) library when possible'',
        ''Implement a Web Application Firewall (WAF) as an additional layer of protection''],
     code_example =
       ''\<newline>'' @
       ''# Example of parameterized query in Python with SQLite:\<newline>'' @
       ''import sqlite3\<newline>'' @
       ''conn = sqlite3.connect(\'database.db\')\<newline>'' @
       ''cursor = conn.cursor()\<newline>'' @
       ''\<newline>'' @
       ''# UNSAFE:\<newline>'' @
       ''# username = request.args.get(\'username\')\<newline>'' @
       ''# cursor.execute(f"SELECT * FROM users WHERE username = \'{username}\'")\<newline>'' @
       ''\<newline>'' @
       ''# SAFE:\<newline>'' @
       ''username = request.args.get(\'username\')\<newline>'' @
       ''cursor.execute("SELECT * FROM users WHERE username = ?", (username,))\<newline>'' @
       ''                '',
     references = [''OWASP SQL Injection Prevention Cheat Sheet: https://cheatsheetseries.owasp.org/cheatsheets/SQL_Injection_Prevention_Cheat_Sheet.html'',
        ''PortSwigger SQL Injection Guide: https://portswigger.net/web-security/sql-injection'']\<rparr>\<close>

definition rec_xss :: template where
  \<open>rec_xss =
    \<lparr>summary = ''Prevent Cross-Site Scripting (XSS) by implementing proper output encoding and CSP headers'',
     steps = [''Implement context-appropriate output encoding for all user-controlled data'',
        ''Use Content-Security-Policy (CSP) headers to restrict script execution'',
        ''Sanitize all user inputs before rendering them in HTML contexts'',
        ''Use modern frameworks that automatically escape output'',
        ''Implement X-XSS-Protection header as an additional defense''],
     code_example =
       ''\<newline>'' @
       ''# Example of CSP header implementation in Node.js:\<newline>'' @
       ''app.use(helmet.contentSecurityPolicy({\<newline>'' @
       ''  directives: {\<newline>'' @
       ''    defaultSrc: ["\'self\'"],\<newline>'' @
       ''    scriptSrc: ["\'self\'", "\'nonce-{RANDOM_NONCE}\'"],\<newline>'' @
       ''    styleSrc: ["\'self\'", "\'unsafe-inline\'"],\<newline>'' @
       ''    imgSrc: ["\'self\'", "data:"],\<newline>'' @
       ''    connectSrc: ["\'self\'"],\<newline>'' @
       ''    fontSrc: ["\'self\'"],\<newline>'' @
       ''    objectSrc: ["\'none\'"],\<newline>'' @
       ''    mediaSrc: ["\'self\'"],\<newline>'' @
       ''    frameSrc: ["\'none\'"],\<newline>'' @
       ''  }\<newline>'' @
       ''})\<newline>'' @
       ''                '',
     references = [''OWASP XSS Prevention Cheat Sheet: https://cheatsheetseries.owasp.org/cheatsheets/Cross_Site_Scripting_Prevention_Cheat_Sheet.html'',
        ''Content Security Policy (CSP) Quick Reference: https://content-security-policy.com/'']\<rparr>\<close>

definition rec_open_redirect :: template where
  \<open>rec_open_redirect =
    \<lparr>summary = ''Prevent open redirect vulnerabilities by validating destination URLs against a whitelist'',
     steps = [''Implement a whitelist of allowed redirect destinations'',
        ''Validate all redirect parameters against this whitelist'',
        ''Use relative path redirects when possible'',
        ''For external redirects, use an intermediate page that requires user confirmation'',
        ''Consider implementing URL signing for sensitive redirects''],
     code_example =
       ''\<newline>'' @
       ''# Example of safe redirect implementation in Python:\<newline>'' @
       ''from urllib.parse import urlparse\<newline>'' @
       ''import re\<newline>'' @
       ''\<newline>'' @
       ''def is_safe_redirect_url(url, allowed_hosts):\<newline>'' @
       ''    parsed_url = urlparse(url)\<newline>'' @
       ''    return (not parsed_url.netloc) or (parsed_url.netloc in allowed_hosts)\<newline>'' @
       ''\<newline>'' @
       ''def safe_redirect(request):\<newline>'' @
       ''    redirect_url = request.args.get(\'next\', \'/\')\<newline>'' @
       ''    allowed_hosts = [\'example.com\', \'subdomain.example.com\']\<newline>'' @
       ''    \<newline>'' @
       ''    if is_safe_redirect_url(redirect_url, allowed_hosts):\<newline>'' @
       ''        return redirect(redirect_url)\<newline>'' @
       ''    else:\<newline>'' @
       ''        return redirect(\'/\')\<newline>'' @
       ''                '',
     references = [''OWASP Unvalidated Redirects and Forwards Cheat Sheet: https://cheatsheetseries.owasp.org/cheatsheets/Unvalidated_Redirects_and_Forwards_Cheat_Sheet.html'']\<rparr>\<close>

definition rec_csrf :: template where
  \<open>rec_csrf =
    \<lparr>summary = ''Protect against Cross-Site Request Forgery (CSRF) with anti-CSRF tokens and proper validation'',
     steps = [''Implement anti-CSRF tokens for all state-changing operations'',
        ''Ensure tokens are unique per user session and per request'',
        ''Add the \'SameSite=Strict\' attribute to cookies'',
        ''Use the \'X-CSRF-TOKEN\' header for AJAX requests'',
        ''Consider implementing custom request headers for sensitive operations''],
     code_example =
       ''\<newline>'' @
       ''# Example of CSRF protection in Flask:\<newline>'' @
       ''from flask_wtf.csrf import CSRFProtect\<newline>'' @
       ''\<newline>'' @
       ''app = Flask(__name__)\<newline>'' @
       ''app.config[\'SECRET_KEY\'] = \'your-secret-key\'\<newline>'' @
       ''csrf = CSRFProtect(app)\<newline>'' @
       ''\<newline>'' @
       ''@app.route(\'/form\', methods=[\'POST\'])\<newline>'' @
       ''def process_form():\<newline>'' @
       ''    # CSRF token is automatically checked\<newline>'' @
       ''    # Process form data\<newline>'' @
       ''    return \'Form processed\'\<newline>'' @
       ''                '',
     references = [''OWASP CSRF Prevention Cheat Sheet: https://cheatsheetseries.owasp.org/cheatsheets/Cross-Site_Request_Forgery_Prevention_Cheat_Sheet.html'',
        ''SameSite Cookie Attribute: https://developer.mozilla.org/en-US/docs/Web/HTTP/Headers/Set-Cookie/SameSite'']\<rparr>\<close>

definition rec_ssrf :: template where
  \<open>rec_ssrf =
    \<lparr>summary = ''Protect against Server-Side Request Forgery (SSRF) by validating and restricting URLs'',
     steps = [''Implement a whitelist of allowed destinations'',
        ''Validate and sanitize all user-provided URLs'',
        ''Use a URL parsing library to canonicalize URLs before validation'',
        ''Block requests to internal networks (127.0.0.0/8, 169.254.0.0/16, etc.)'',
        ''Use network-level protections like firewalls to restrict server connections''],
     code_example =
       ''\<newline>'' @
       ''# Example of SSRF protection in Python:\<newline>'' @
       ''import ipaddress\<newline>'' @
       ''from urllib.parse import urlparse\<newline>'' @
       ''\<newline>'' @
       ''def is_internal_ip(hostname):\<newline>'' @
       ''    try:\<newline>'' @
       ''        ip = socket.gethostbyname(hostname)\<newline>'' @
       ''        ip_addr = ipaddress.ip_address(ip)\<newline>'' @
       ''        return (\<newline>'' @
       ''            ip_addr.is_private or\<newline>'' @
       ''            ip_addr.is_loopback or\<newline>'' @
       ''            ip_addr.is_link_local\<newline>'' @
       ''        )\<newline>'' @
       ''    except:\<newline>'' @
       ''        return False\<newline>'' @
       ''\<newline>'' @
       ''def safe_request(url):\<newline>'' @
       ''    parsed_url = urlparse(url)\<newline>'' @
       ''    if is_internal_ip(parsed_url.netloc):\<newline>'' @
       ''        raise ValueError("URL points to internal network")\<newline>'' @
       ''    \<newline>'' @
       ''    allowed_hosts = [\'api.example.com\', \'public-api.com\']\<newline>'' @
       ''    if parsed_url.netloc not in allowed_hosts:\<newline>'' @
       ''        raise ValueError("URL hostname not in whitelist")\<newline>'' @
       ''    \<newline>'' @
       ''    # Make the request\<newline>'' @
       ''    response = requests.get(url)\<newline>'' @
       ''    return response\<newline>'' @
       ''                '',
     references = [''OWASP SSRF Prevention Cheat Sheet: https://cheatsheetseries.owasp.org/cheatsheets/Server_Side_Request_Forgery_Prevention_Cheat_Sheet.html'',
        ''PortSwigger SSRF Guide: https://portswigger.net/web-security/ssrf'']\<rparr>\<close>

definition rec_lfi :: template where
  \<open>rec_lfi =
    \<lparr>summary = ''Protect against Local File Inclusion (LFI) by restricting file access and validating paths'',
     steps = [''Implement strict input validation for file paths'',
        ''Use a whitelist of allowed files or directories'',
        ''Avoid using user input directly in file operations'',
        ''Implement proper file access controls'',
        ''Consider using a file abstraction layer instead of direct file system access''],
     code_example =
       ''\<newline>'' @
       ''# Example of safe file inclusion in PHP:\<newline>'' @
       ''function safeInclude($file) {\<newline>'' @
       ''    // Define the base directory for includes\<newline>'' @
       ''    $baseDir = \'/var/www/includes/\';\<newline>'' @
       ''    \<newline>'' @
       ''    // Remove any path traversal attempts\<newline>'' @
       ''    $file = basename($file);\<newline>'' @
       ''    \<newline>'' @
       ''    // Whitelist of allowed files\<newline>'' @
       ''    $allowedFiles = [\'header.php\', \'footer.php\', \'menu.php\'];\<newline>'' @
       ''    \<newline>'' @
       ''    if (in_array($file, $allowedFiles) && file_exists($baseDir . $file)) {\<newline>'' @
       ''        include($baseDir . $file);\<newline>'' @
       ''        return true;\<newline>'' @
       ''    }\<newline>'' @
       ''    return false;\<newline>'' @
       ''}\<newline>'' @
       ''\<newline>'' @
       ''// Usage\<newline>'' @
       ''$file = $_GET[\'include\'];\<newline>'' @
       ''if (!safeInclude($file)) {\<newline>'' @
       ''    // Log the attempt and show error\<newline>'' @
       ''    error_log("Potential LFI attempt: " . $file);\<newline>'' @
       ''    include(\'error.php\');\<newline>'' @
       ''}\<newline>'' @
       ''                '',
     references = [''OWASP File Inclusion Guide: https://owasp.org/www-project-web-security-testing-guide/latest/4-Web_Application_Security_Testing/07-Input_Validation_Testing/11.1-Testing_for_Local_File_Inclusion'']\<rparr>\<close>

definition rec_rfi :: template where
  \<open>rec_rfi =
    \<lparr>summary = ''Protect against Remote File Inclusion (RFI) by disabling remote includes and validating sources'',
     steps = [''Disable remote file includes if not needed (allow_url_include=Off in PHP)'',
        ''Implement a whitelist of allowed external resources'',
        ''Validate all URLs against the whitelist'',
        ''Use content verification for included files'',
        ''Consider alternatives to dynamic file inclusion''],
     code_example =
       ''\<newline>'' @
       ''# PHP configuration changes in php.ini:\<newline>'' @
       ''allow_url_fopen = Off\<newline>'' @
       ''allow_url_include = Off\<newline>'' @
       ''\<newline>'' @
       ''# Example of safer dynamic inclusion in PHP:\<newline>'' @
       ''function safeIncludeRemote($url) {\<newline>'' @
       ''    // Whitelist of allowed domains\<newline>'' @
       ''    $allowedDomains = [\'trusted-cdn.com\', \'company-repo.com\'];\<newline>'' @
       ''    \<newline>'' @
       ''    // Parse the URL\<newline>'' @
       ''    $parsed = parse_url($url);\<newline>'' @
       ''    \<newline>'' @
       ''    // Check if the domain is in the whitelist\<newline>'' @
       ''    if (isset($parsed[\'host\']) && in_array($parsed[\'host\'], $allowedDomains)) {\<newline>'' @
       ''        // Use file_get_contents with stream context to enforce HTTPS\<newline>'' @
       ''        $context = stream_context_create([\<newline>'' @
       ''            \'ssl\' => [\<newline>'' @
       ''                \'verify_peer\' => true,\<newline>'' @
       ''                \'verify_peer_name\' => true,\<newline>'' @
       ''            ],\<newline>'' @
       ''        ]);\<newline>'' @
       ''        \<newline>'' @
       ''        $content = file_get_contents($url, false, $context);\<newline>'' @
       ''        \<newline>'' @
       ''        // Safety check on content\<newline>'' @
       ''        if (strpos($content, \'<?php\') === false) {\<newline>'' @
       ''            // Process the content\<newline>'' @
       ''            return $content;\<newline>'' @
       ''        }\<newline>'' @
       ''    }\<newline>'' @
       ''    \<newline>'' @
       ''    return false;\<newline>'' @
       ''}\<newline>'' @
       ''                '',
     references = [''OWASP Remote File Inclusion Guide: https://owasp.org/www-project-web-security-testing-guide/latest/4-Web_Application_Security_Testing/07-Input_Validation_Testing/11.2-Testing_for_Remote_File_Inclusion'']\<rparr>\<close>

definition rec_cve :: template where
  \<open>rec_cve =
    \<lparr>summary = ''Address known Common Vulnerabilities and Exposures (CVEs) by applying patches and updates'',
     steps = [''Identify the specific CVE affecting your software'',
        ''Update the affected software to the latest patched version'',
        ''If patches are not available, implement temporary mitigations as recommended by the vendor'',
        ''Set up a vulnerability management process to track and prioritize patching'',
        ''Consider using a Web Application Firewall (WAF) to block exploitation attempts''],
     code_example =
       ''\<newline>'' @
       ''# Example of security patching process:\<newline>'' @
       ''1. Set up automated vulnerability scanning:\<newline>'' @
       ''   - Use tools like OWASP Dependency Check, Snyk, or GitHub Dependency Graph\<newline>'' @
       ''   - Integrate scanning into CI/CD pipeline\<newline>'' @
       ''\<newline>'' @
       ''2. Implement a patch management system:\<newline>'' @
       ''   ```bash\<newline>'' @
       ''   # Example update script for Linux server\<newline>'' @
       ''   #!/bin/bash\<newline>'' @
       ''   \<newline>'' @
       ''   # Update package lists\<newline>'' @
       ''   apt-get update\<newline>'' @
       ''   \<newline>'' @
       ''   # Apply security updates\<newline>'' @
       ''   apt-get upgrade -y\<newline>'' @
       ''   \<newline>'' @
       ''   # Log the update\<newline>'' @
       ''   echo "Security update applied on $(date)" >> /var/log/security-updates.log\<newline>'' @
       ''   ```\<newline>'' @
       ''                '',
     references = [''National Vulnerability Database: https://nvd.nist.gov/'',
        ''OWASP Dependency Check: https://owasp.org/www-project-dependency-check/'']\<rparr>\<close>

definition rec_outdated :: template where
  \<open>rec_outdated =
    \<lparr>summary = ''Fix outdated software vulnerabilities by updating components and implementing security patches'',
     steps = [''Inventory all software components and dependencies'',
        ''Update to the latest stable and secure versions'',
        ''Set up automated dependency checking'',
        ''Implement a regular update schedule and policy'',
        ''Consider containerization to isolate components and simplify updates''],
     code_example =
       ''\<newline>'' @
       ''# Example of automated dependency updates in Node.js:\<newline>'' @
       ''# package.json\<newline>'' @
       ''{\<newline>'' @
       ''  "name": "your-app",\<newline>'' @
       ''  "scripts": {\<newline>'' @
       ''    "audit": "npm audit fix",\<newline>'' @
       ''    "update-deps": "npm update",\<newline>'' @
       ''    "security-check": "snyk test"\<newline>'' @
       ''  },\<newline>'' @
       ''  "devDependencies": {\<newline>'' @
       ''    "snyk": "^1.500.0"\<newline>'' @
       ''  }\<newline>'' @
       ''}\<newline>'' @
       ''\<newline>'' @
       ''# GitHub Actions Workflow for automated updates\<newline>'' @
       ''name: Security Updates\<newline>'' @
       ''on:\<newline>'' @
       ''  schedule:\<newline>'' @
       ''    - cron: \'0 0 * * 0\'  # Weekly on Sundays\<newline>'' @
       ''jobs:\<newline>'' @
       ''  update-dependencies:\<newline>'' @
       ''    runs-on: ubuntu-latest\<newline>'' @
       ''    steps:\<newline>'' @
       ''      - uses: actions/checkout@v2\<newline>'' @
       ''      - name: Update dependencies\<newline>'' @
       ''        run: npm update\<newline>'' @
       ''      - name: Test changes\<newline>'' @
       ''        run: npm test\<newline>'' @
       ''      - name: Create Pull Request\<newline>'' @
       ''        uses: peter-evans/create-pull-request@v3\<newline>'' @
       ''        with:\<newline>'' @
       ''          title: \'Dependency Updates\'\<newline>'' @
       ''          branch: \'automated-updates\'\<newline>'' @
       ''                '',
     references = [''OWASP Top 10 - A9:2017 Using Components with Known Vulnerabilities: https://owasp.org/www-project-top-ten/2017/A9_2017-Using_Components_with_Known_Vulnerabilities'',
        ''Snyk - Dependency Vulnerability Scanner: https://snyk.io/'']\<rparr>\<close>

definition rec_missing_header :: template where
  \<open>rec_missing_header =
    \<lparr>summary = ''Implement security headers to improve web application defense against common attacks'',
     steps = [''Implement Content-Security-Policy (CSP) header'',
        ''Add X-XSS-Protection header'',
        ''Set X-Content-Type-Options: nosniff header'',
        ''Configure Strict-Transport-Security (HSTS) header'',
        ''Add X-Frame-Options header to prevent clickjacking''],
     code_example =
       ''\<newline>'' @
       ''# Example security headers in Nginx:\<newline>'' @
       ''server {\<newline>'' @
       ''    listen 443 ssl;\<newline>'' @
       ''    server_name example.com;\<newline>'' @
       ''    \<newline>'' @
       ''    # Security headers\<newline>'' @
       ''    add_header Content-Security-Policy "default-src \'self\'; script-src \'self\' \'unsafe-inline\'; style-src \'self\' \'unsafe-inline\';" always;\<newline>'' @
       ''    add_header X-XSS-Protection "1; mode=block" always;\<newline>'' @
       ''    add_header X-Content-Type-Options "nosniff" always;\<newline>'' @
       ''    add_header Strict-Transport-Security "max-age=31536000; includeSubDomains; preload" always;\<newline>'' @
       ''    add_header X-Frame-Options "SAMEORIGIN" always;\<newline>'' @
       ''    add_header Referrer-Policy "strict-origin-when-cross-origin" always;\<newline>'' @
       ''    \<newline>'' @
       ''    # Other server configuration...\<newline>'' @
       ''}\<newline>'' @
       ''\<newline>'' @
       ''# Example security headers in Express.js:\<newline>'' @
       ''const helmet = require(\'helmet\');\<newline>'' @
       ''app.use(helmet());\<newline>'' @
       ''                '',
     references = [''OWASP Secure Headers Project: https://owasp.org/www-project-secure-headers/'',
        ''Mozilla Observatory: https://observatory.mozilla.org/'']\<rparr>\<close>

definition rec_information_disclosure :: template where
  \<open>rec_information_disclosure =
    \<lparr>summary = ''Prevent sensitive information disclosure by controlling error messages and removing debugging info'',
     steps = [''Configure custom error pages to avoid revealing system information'',
        ''Remove version information from HTTP headers'',
        ''Disable directory listings on web servers'',
        ''Implement proper exception handling to avoid stack traces in responses'',
        ''Remove comments containing sensitive information from client-side code''],
     code_example =
       ''\<newline>'' @
       ''# Example of custom error handling in Express.js:\<newline>'' @
       ''app.use((err, req, res, next) => {\<newline>'' @
       ''  // Log the error internally\<newline>'' @
       ''  console.error(err);\<newline>'' @
       ''  \<newline>'' @
       ''  // Return a generic error message to the client\<newline>'' @
       ''  res.status(500).json({\<newline>'' @
       ''    status: \'error\',\<newline>'' @
       ''    message: \'An internal server error occurred\'\<newline>'' @
       ''  });\<newline>'' @
       ''});\<newline>'' @
       ''\<newline>'' @
       ''# Example of properly redacting sensitive information in logs:\<newline>'' @
       ''function logSanitizer(logObject) {\<newline>'' @
       ''  const sensitiveFields = [\'password\', \'token\', \'ssn\', \'creditCard\', \'secret\'];\<newline>'' @
       ''  \<newline>'' @
       ''  return Object.keys(logObject).reduce((acc, key) => {\<newline>'' @
       ''    if (sensitiveFields.includes(key.toLowerCase())) {\<newline>'' @
       ''      acc[key] = \'[REDACTED]\';\<newline>'' @
       ''    } else {\<newline>'' @
       ''      acc[key] = logObject[key];\<newline>'' @
       ''    }\<newline>'' @
       ''    return acc;\<newline>'' @
       ''  }, {});\<newline>'' @
       ''}\<newline>'' @
       ''                '',
     references = [''OWASP Information Leakage Guide: https://owasp.org/www-project-web-security-testing-guide/latest/4-Web_Application_Security_Testing/01-Information_Gathering/07-Map_Application_Architecture'']\<rparr>\<close>

definition rec_directory_listing :: template where
  \<open>rec_directory_listing =
    \<lparr>summary = ''Disable directory listing to prevent unauthorized browsing of server directories'',
     steps = [''Disable directory listing in web server configuration'',
        ''Create index files in all directories that need to be accessed'',
        ''Configure a custom 403 Forbidden page'',
        ''Use access controls to restrict directory access'',
        ''Regularly audit accessible directories''],
     code_example =
       ''\<newline>'' @
       ''# Apache configuration (.htaccess):\<newline>'' @
       ''Options -Indexes\<newline>'' @
       ''ErrorDocument 403 /error/forbidden.html\<newline>'' @
       ''\<newline>'' @
       ''# Nginx configuration:\<newline>'' @
       ''server {\<newline>'' @
       ''    # ...\<newline>'' @
       ''    \<newline>'' @
       ''    # Disable directory listing\<newline>'' @
       ''    autoindex off;\<newline>'' @
       ''    \<newline>'' @
       ''    # Custom error page\<newline>'' @
       ''    error_page 403 /error/forbidden.html;\<newline>'' @
       ''    \<newline>'' @
       ''    # ...\<newline>'' @
       ''}\<newline>'' @
       ''                '',
     references = [''OWASP Testing for Directory Traversal: https://owasp.org/www-project-web-security-testing-guide/latest/4-Web_Application_Security_Testing/05-Authorization_Testing/01-Testing_Directory_Traversal_File_Include'']\<rparr>\<close>

definition rec_default_credentials :: template where
  \<open>rec_default_credentials =
    \<lparr>summary = ''Eliminate default credential vulnerabilities by changing passwords and implementing proper authentication'',
     steps = [''Change all default credentials on all systems and components'',
        ''Implement a strong password policy for all accounts'',
        ''Set up multi-factor authentication (MFA) where possible'',
        ''Audit system accounts regularly'',
        ''Implement password rotation for service accounts''],
     code_example =
       ''\<newline>'' @
       ''# Example of strong password policy implementation in Node.js:\<newline>'' @
       ''const passwordValidator = require(\'password-validator\');\<newline>'' @
       ''\<newline>'' @
       ''// Create a password schema\<newline>'' @
       ''const passwordSchema = new passwordValidator();\<newline>'' @
       ''passwordSchema\<newline>'' @
       ''  .is().min(12)                                   // Minimum length 12\<newline>'' @
       ''  .is().max(100)                                  // Maximum length 100\<newline>'' @
       ''  .has().uppercase()                              // Must have uppercase letters\<newline>'' @
       ''  .has().lowercase()                              // Must have lowercase letters\<newline>'' @
       ''  .has().digits(2)                                // Must have at least 2 digits\<newline>'' @
       ''  .has().not().spaces()                           // Should not have spaces\<newline>'' @
       ''  .has().symbols(1)                               // Must have at least 1 symbol\<newline>'' @
       ''  .is().not().oneOf([\'Password123!\', \'Admin123!\']); // Blacklist common passwords\<newline>'' @
       ''\<newline>'' @
       ''// Validate a password\<newline>'' @
       ''function validatePassword(password) {\<newline>'' @
       ''  return passwordSchema.validate(password, { list: true });\<newline>'' @
       ''}\<newline>'' @
       ''                '',
     references = [''OWASP Authentication Best Practices: https://cheatsheetseries.owasp.org/cheatsheets/Authentication_Cheat_Sheet.html'',
        ''NIST Password Guidelines: https://pages.nist.gov/800-63-3/sp800-63b.html'']\<rparr>\<close>

definition rec_sensitive_file :: template where
  \<open>rec_sensitive_file =
    \<lparr>summary = ''Protect sensitive files by removing them from publicly accessible locations and implementing access controls'',
     steps = [''Remove sensitive files from web-accessible directories'',
        ''Move configuration files outside the web root'',
        ''Use environment variables for sensitive configuration'',
        ''Implement proper file permissions'',
        ''Use .gitignore to prevent committing sensitive files''],
     code_example =
       ''\<newline>'' @
       ''# Example .gitignore file:\<newline>'' @
       ''# Ignore sensitive files\<newline>'' @
       ''.env\<newline>'' @
       ''.env.*\<newline>'' @
       ''config/secrets.yml\<newline>'' @
       ''credentials.json\<newline>'' @
       ''private_key.pem\<newline>'' @
       ''*.key\<newline>'' @
       ''*.p12\<newline>'' @
       ''*.pfx\<newline>'' @
       ''*.password\<newline>'' @
       ''\<newline>'' @
       ''# Example of using environment variables instead of config files:\<newline>'' @
       ''# Instead of:\<newline>'' @
       ''# database.json\<newline>'' @
       ''{\<newline>'' @
       ''  "host": "db.example.com",\<newline>'' @
       ''  "username": "admin",\<newline>'' @
       ''  "password": "super-secret-password"\<newline>'' @
       ''}\<newline>'' @
       ''\<newline>'' @
       ''# Use environment variables:\<newline>'' @
       ''const dbConfig = {\<newline>'' @
       ''  host: process.env.DB_HOST,\<newline>'' @
       ''  username: process.env.DB_USER,\<newline>'' @
       ''  password: process.env.DB_PASSWORD\<newline>'' @
       ''};\<newline>'' @
       ''                '',
     references = [''OWASP Sensitive Data Exposure: https://owasp.org/www-project-top-ten/2017/A3_2017-Sensitive_Data_Exposure'',
        ''The Twelve-Factor App - Config: https://12factor.net/config'']\<rparr>\<close>

definition rec_ssl_tls :: template where
  \<open>rec_ssl_tls =
    \<lparr>summary = ''Fix SSL/TLS vulnerabilities by configuring proper protocols, cipher suites, and certificates'',
     steps = [''Disable outdated protocols (SSL 2.0, SSL 3.0, TLS 1.0, TLS 1.1)'',
        ''Enable only strong cipher suites'',
        ''Configure proper certificate validation'',
        ''Implement HTTP Strict Transport Security (HSTS)'',
        ''Use secure flag for cookies''],
     code_example =
       ''\<newline>'' @
       ''# Nginx secure TLS configuration:\<newline>'' @
       ''server {\<newline>'' @
       ''    listen 443 ssl;\<newline>'' @
       ''    server_name example.com;\<newline>'' @
       ''    \<newline>'' @
       ''    # TLS configuration\<newline>'' @
       ''    ssl_protocols TLSv1.2 TLSv1.3;\<newline>'' @
       ''    ssl_prefer_server_ciphers on;\<newline>'' @
       ''    ssl_ciphers \'ECDHE-ECDSA-AES256-GCM-SHA384:ECDHE-RSA-AES256-GCM-SHA384:ECDHE-ECDSA-CHACHA20-POLY1305:ECDHE-RSA-CHACHA20-POLY1305:ECDHE-ECDSA-AES128-GCM-SHA256:ECDHE-RSA-AES128-GCM-SHA256\';\<newline>'' @
       ''    ssl_session_timeout 1d;\<newline>'' @
       ''    ssl_session_cache shared:SSL:50m;\<newline>'' @
       ''    ssl_session_tickets off;\<newline>'' @
       ''    ssl_certificate /path/to/fullchain.pem;\<newline>'' @
       ''    ssl_certificate_key /path/to/privkey.pem;\<newline>'' @
       ''    \<newline>'' @
       ''    # HSTS\<newline>'' @
       ''    add_header Strict-Transport-Security "max-age=63072000; includeSubDomains; preload" always;\<newline>'' @
       ''    \<newline>'' @
       ''    # ...\<newline>'' @
       ''}\<newline>'' @
       ''                '',
     references = [''Mozilla SSL Configuration Generator: https://ssl-config.mozilla.org/'',
        ''OWASP Transport Layer Protection Cheat Sheet: https://cheatsheetseries.owasp.org/cheatsheets/Transport_Layer_Protection_Cheat_Sheet.html'']\<rparr>\<close>

definition rec_cors :: template where
  \<open>rec_cors =
    \<lparr>summary = ''Configure proper Cross-Origin Resource Sharing (CORS) policies to prevent unauthorized access'',
     steps = [''Specify the exact origins that should be allowed access'',
        ''Limit the HTTP methods allowed for cross-origin requests'',
        ''Restrict which HTTP headers can be used'',
        ''Control whether credentials can be included in cross-origin requests'',
        ''Set appropriate caching directives for preflight responses''],
     code_example =
       ''\<newline>'' @
       ''# Example of secure CORS configuration in Express.js:\<newline>'' @
       ''const cors = require(\'cors\');\<newline>'' @
       ''\<newline>'' @
       ''// Basic CORS configuration\<newline>'' @
       ''app.use(cors({\<newline>'' @
       ''  origin: [\'https://example.com\', \'https://www.example.com\'],\<newline>'' @
       ''  methods: [\'GET\', \'POST\'],\<newline>'' @
       ''  allowedHeaders: [\'Content-Type\', \'Authorization\'],\<newline>'' @
       ''  credentials: true,\<newline>'' @
       ''  maxAge: 600 // Cache preflight requests for 10 minutes\<newline>'' @
       ''}));\<newline>'' @
       ''\<newline>'' @
       ''# Example of CORS configuration in Nginx:\<newline>'' @
       ''location /api/ {\<newline>'' @
       ''  if ($request_method = \'OPTIONS\') {\<newline>'' @
       ''    add_header \'Access-Control-Allow-Origin\' \'https://example.com\';\<newline>'' @
       ''    add_header \'Access-Control-Allow-Methods\' \'GET, POST, OPTIONS\';\<newline>'' @
       ''    add_header \'Access-Control-Allow-Headers\' \'DNT,User-Agent,X-Requested-With,If-Modified-Since,Cache-Control,Content-Type,Range,Authorization\';\<newline>'' @
       ''    add_header \'Access-Control-Max-Age\' \'600\';\<newline>'' @
       ''    add_header \'Content-Type\' \'text/plain; charset=utf-8\';\<newline>'' @
       ''    add_header \'Content-Length\' \'0\';\<newline>'' @
       ''    return 204;\<newline>'' @
       ''  }\<newline>'' @
       ''  \<newline>'' @
       ''  add_header \'Access-Control-Allow-Origin\' \'https://example.com\';\<newline>'' @
       ''  add_header \'Access-Control-Allow-Methods\' \'GET, POST, OPTIONS\';\<newline>'' @
       ''  add_header \'Access-Control-Allow-Headers\' \'DNT,User-Agent,X-Requested-With,If-Modified-Since,Cache-Control,Content-Type,Range,Authorization\';\<newline>'' @
       ''  add_header \'Access-Control-Expose-Headers\' \'Content-Length,Content-Range\';\<newline>'' @
       ''  \<newline>'' @
       ''  # Pass to backend\<newline>'' @
       ''  proxy_pass http://backend;\<newline>'' @
       ''}\<newline>'' @
       ''                '',
     references = [''OWASP CORS Guide: https://cheatsheetseries.owasp.org/cheatsheets/Cross-Origin_Resource_Sharing_Cheat_Sheet.html'',
        ''MDN CORS: https://developer.mozilla.org/en-US/docs/Web/HTTP/CORS'']\<rparr>\<close>

definition default_recommendation :: template where
  \<open>default_recommendation =
    \<lparr>summary = ''Review and fix this vulnerability based on security best practices'',
     steps = [''Identify the root cause of the vulnerability'',
        ''Research OWASP guidelines for this type of issue'',
        ''Apply security patches or updates if available'',
        ''Implement appropriate input validation and output encoding'',
        ''Consider adding additional security controls''],
     code_example =
       ''\<newline>'' @
       ''# General security best practices:\<newline>'' @
       ''1. Apply input validation\<newline>'' @
       ''2. Use parameterized queries\<newline>'' @
       ''3. Implement output encoding\<newline>'' @
       ''4. Follow the principle of least privilege\<newline>'' @
       ''5. Keep all software updated\<newline>'' @
       ''            '',
     references = [''OWASP Top 10: https://owasp.org/www-project-top-ten/'',
        ''SANS CWE Top 25: https://www.sans.org/top25-software-errors/'']\<rparr>\<close>

definition remediation_db :: "(string \<times> template) list" where
  "remediation_db =
    [(''sql injection'', rec_sql_injection),
     (''xss'', rec_xss),
     (''open redirect'', rec_open_redirect),
     (''csrf'', rec_csrf),
     (''ssrf'', rec_ssrf),
     (''lfi'', rec_lfi),
     (''rfi'', rec_rfi),
     (''cve'', rec_cve),
     (''outdated'', rec_outdated),
     (''missing header'', rec_missing_header),
     (''information disclosure'', rec_information_disclosure),
     (''directory listing'', rec_directory_listing),
     (''default credentials'', rec_default_credentials),
     (''sensitive file'', rec_sensitive_file),
     (''ssl tls'', rec_ssl_tls),
     (''cors'', rec_cors)]"

section \<open>Remediation lookup\<close>

text \<open>
  The two loops of \<^verbatim>\<open>_get_recommendation_for_vulnerability_type\<close> over
  \<^verbatim>\<open>remediation_db.items()\<close>, each returning at its first hit.
\<close>

fun exact_match :: "(string \<times> template) list \<Rightarrow> string \<Rightarrow> string \<Rightarrow> template option" where
  "exact_match [] v m = None"
| "exact_match ((vuln_type, recommendation) # db) v m =
     (if contains vuln_type v \<or> contains vuln_type m then Some recommendation
      else exact_match db v m)"

fun partial_match :: "(string \<times> template) list \<Rightarrow> string \<Rightarrow> string \<Rightarrow> template option" where
  "partial_match [] v m = None"
| "partial_match ((vuln_type, recommendation) # db) v m =
     (if re_search_word (first_word vuln_type) v \<or> re_search_word (first_word vuln_type) m
      then Some recommendation
      else partial_match db v m)"

definition get_recommendation_for_vulnerability_type :: "string \<Rightarrow> string \<Rightarrow> template" where
  "get_recommendation_for_vulnerability_type vuln_name matcher_name =
     (let vuln_name_lower = lower vuln_name;
          matcher_name_lower = lower matcher_name
      in case exact_match remediation_db vuln_name_lower matcher_name_lower of
           Some recommendation \<Rightarrow> recommendation
         | None \<Rightarrow>
             (case partial_match remediation_db vuln_name_lower matcher_name_lower of
                Some recommendation \<Rightarrow> recommendation
              | None \<Rightarrow> default_recommendation))"

section \<open>Scan records and findings\<close>

text \<open>
  The dictionaries read from the scan artifacts become records; a key that may be absent
  is an \<open>option\<close> field, and \<^verbatim>\<open>d.get(key, default)\<close> is \<open>dict_get\<close>.
\<close>

datatype error = KeyError string | TypeError | AttributeError

definition dict_get :: "'a option \<Rightarrow> 'a \<Rightarrow> 'a" where
  "dict_get v d = (case v of None \<Rightarrow> d | Some x \<Rightarrow> x)"

record info =
  name :: "string option"
  info_severity :: "string option"
  info_description :: "string option"

record result =
  info :: "info option"
  host :: "string option"
  matcher_name :: "string option"

record check =
  check_title :: "string option"
  content :: "string option"

record raw_bundle =
  results :: "result list option"
  manual_checks :: "check list option"

record details =
  details_url :: "string option"

record finding =
  title :: "string option"
  severity :: "string option"
  description :: "string option"
  url :: "string option"
  details :: "details option"
  recommendation :: "template option"

record port_entry =
  port :: "int option"
  service :: "string option"
  version :: "string option"

record host_entry =
  host_name :: "string option"
  ports :: "port_entry list option"

record port_data =
  scan_results :: "host_entry list option"

record open_port =
  op_host :: string
  op_port :: int
  op_service :: string
  op_version :: string

record directory =
  dir_url :: "string option"
  status :: "int option"

section \<open>Heuristic classifiers\<close>

fun any_keyword :: "string list \<Rightarrow> string \<Rightarrow> bool" where
  "any_keyword [] s = False"
| "any_keyword (keyword # keywords) s = (if contains keyword s then True else any_keyword keywords s)"

definition subdomain_keywords :: "string list" where
  "subdomain_keywords =
     [''admin'', ''dev'', ''staging'', ''test'', ''beta'', ''api'', ''internal'',
      ''vpn'', ''mail'', ''remote'', ''portal'', ''intranet'', ''secure'', ''login'',
      ''db'', ''database'', ''auth'', ''jenkins'', ''git'', ''svn'', ''jira'', ''confluence'']"

fun find_interesting_subdomains :: "string list \<Rightarrow> string list" where
  "find_interesting_subdomains [] = []"
| "find_interesting_subdomains (subdomain # subdomains) =
     (if any_keyword subdomain_keywords (lower subdomain)
      then subdomain # find_interesting_subdomains subdomains
      else find_interesting_subdomains subdomains)"

definition analyze_host :: "host_entry \<Rightarrow> open_port list" where
  "analyze_host h =
     map (\<lambda>port_info.
            \<lparr>op_host = dict_get (host_name h) ''unknown'',
             op_port = dict_get (port port_info) 0,
             op_service = dict_get (service port_info) ''unknown'',
             op_version = dict_get (version port_info) ''unknown''\<rparr>)
         (dict_get (ports h) [])"

definition analyze_ports :: "port_data \<Rightarrow> open_port list" where
  "analyze_ports pd = concat (map analyze_host (dict_get (scan_results pd) []))"

definition directory_keywords :: "string list" where
  "directory_keywords =
     [''.git'', ''.env'', ''wp-admin'', ''admin'', ''backup'', ''db'', ''config'',
      ''dashboard'', ''login'', ''api'', ''test'', ''dev'', ''staging'', ''beta'',
      ''phpinfo'', ''phpmyadmin'', ''jenkins'', ''jira'', ''confluence'',
      ''password'', ''credentials'', ''sql'', ''database'']"

fun find_interesting_directories :: "directory list \<Rightarrow> directory list" where
  "find_interesting_directories [] = []"
| "find_interesting_directories (d # ds) =
     (if any_keyword directory_keywords (lower (dict_get (dir_url d) ''''))
      then d # find_interesting_directories ds
      else find_interesting_directories ds)"

section \<open>Finding normalizer\<close>

definition analyze_result :: "result \<Rightarrow> finding" where
  "analyze_result r =
     (let i = dict_get (info r) \<lparr>name = None, info_severity = None, info_description = None\<rparr>
      in \<lparr>title = Some (dict_get (name i) ''Unknown Vulnerability''),
          severity = Some (dict_get (info_severity i) ''info''),
          description = Some (dict_get (info_description i) ''''),
          url = Some (dict_get (host r) ''''),
          details = None,
          recommendation =
            Some (get_recommendation_for_vulnerability_type
                    (dict_get (name i) '''') (dict_get (matcher_name r) ''''))\<rparr>)"

definition analyze_check :: "check \<Rightarrow> finding" where
  "analyze_check c =
     (let t = dict_get (check_title c) '''';
          sev = (if contains ''CRITICAL'' t then ''critical''
                 else if contains ''WARNING'' t then ''medium''
                 else ''info'')
      in \<lparr>title = Some t,
          severity = Some sev,
          description = Some (dict_get (content c) ''''),
          url = None,
          details = None,
          recommendation = Some (get_recommendation_for_vulnerability_type t '''')\<rparr>)"

definition analyze_bundle :: "raw_bundle \<Rightarrow> finding list" where
  "analyze_bundle vuln_data =
     (case results vuln_data of
        Some rs \<Rightarrow> map analyze_result rs
      | None \<Rightarrow>
          (case manual_checks vuln_data of
             Some cs \<Rightarrow> map analyze_check cs
           | None \<Rightarrow> []))"

fun analyze_vulnerabilities :: "raw_bundle list \<Rightarrow> finding list" where
  "analyze_vulnerabilities [] = []"
| "analyze_vulnerabilities (vuln_data # vulnerabilities) =
     analyze_bundle vuln_data @ analyze_vulnerabilities vulnerabilities"

section \<open>The normalizer on untyped scan data\<close>

text \<open>
  \<^verbatim>\<open>load_results\<close> appends whatever \<^verbatim>\<open>json.load\<close> returns for each file, so
  \<^verbatim>\<open>_analyze_vulnerabilities\<close> can meet any JSON value where the records above have a
  dictionary or a string. \<open>json\<close> is the type of these values (numbers are modelled by
  the integers), and the functions below are the operations that the normalizer applies
  to them, with the exception that Python raises when the value has the wrong type.
\<close>

datatype json =
  JNull
| JBool bool
| JInt int
| JStr string
| JList "json list"
| JDict "(string \<times> json) list"

definition and_then :: "error + 'a \<Rightarrow> ('a \<Rightarrow> error + 'b) \<Rightarrow> error + 'b" where
  "and_then m f = (case m of Inl e \<Rightarrow> Inl e | Inr x \<Rightarrow> f x)"

text \<open>\<^verbatim>\<open>key in v\<close> for a string \<open>key\<close>.\<close>

fun py_in :: "string \<Rightarrow> json \<Rightarrow> error + bool" where
  "py_in key (JDict kv) = Inr (map_of kv key \<noteq> None)"
| "py_in key (JList xs) = Inr (JStr key \<in> set xs)"
| "py_in key (JStr s) = Inr (contains key s)"
| "py_in key JNull = Inl TypeError"
| "py_in key (JBool b) = Inl TypeError"
| "py_in key (JInt n) = Inl TypeError"

text \<open>\<^verbatim>\<open>v[key]\<close> for a string \<open>key\<close>.\<close>

fun py_item :: "json \<Rightarrow> string \<Rightarrow> error + json" where
  "py_item (JDict kv) key = (case map_of kv key of None \<Rightarrow> Inl (KeyError key) | Some x \<Rightarrow> Inr x)"
| "py_item v key = Inl TypeError"

text \<open>The values that \<^verbatim>\<open>for x in v\<close> runs through.\<close>

fun py_iter :: "json \<Rightarrow> error + json list" where
  "py_iter (JList xs) = Inr xs"
| "py_iter (JDict kv) = Inr (map (\<lambda>(k, x). JStr k) kv)"
| "py_iter (JStr s) = Inr (map (\<lambda>c. JStr [c]) s)"
| "py_iter v = Inl TypeError"

text \<open>\<^verbatim>\<open>v.get(key, default)\<close>.\<close>

fun py_get :: "json \<Rightarrow> string \<Rightarrow> json \<Rightarrow> error + json" where
  "py_get (JDict kv) key d = Inr (case map_of kv key of None \<Rightarrow> d | Some x \<Rightarrow> x)"
| "py_get v key d = Inl AttributeError"

text \<open>The lookup calls \<^verbatim>\<open>.lower()\<close> on both arguments, which only a string has.\<close>

fun lookup_json :: "json \<Rightarrow> json \<Rightarrow> error + template" where
  "lookup_json (JStr v) (JStr m) = Inr (get_recommendation_for_vulnerability_type v m)"
| "lookup_json v m = Inl AttributeError"

record json_finding =
  jf_title :: json
  jf_severity :: json
  jf_description :: json
  jf_url :: "json option"
  jf_recommendation :: template

definition analyze_result_json :: "json \<Rightarrow> error + json_finding" where
  "analyze_result_json r =
     and_then (py_get r ''info'' (JDict [])) (\<lambda>i.
     and_then (py_get i ''name'' (JStr ''Unknown Vulnerability'')) (\<lambda>t.
     and_then (py_get i ''severity'' (JStr ''info'')) (\<lambda>sev.
     and_then (py_get i ''description'' (JStr '''')) (\<lambda>desc.
     and_then (py_get r ''host'' (JStr '''')) (\<lambda>h.
     and_then (py_get i ''name'' (JStr '''')) (\<lambda>n.
     and_then (py_get r ''matcher-name'' (JStr '''')) (\<lambda>m.
     and_then (lookup_json n m) (\<lambda>recommendation.
       Inr \<lparr>jf_title = t, jf_severity = sev, jf_description = desc, jf_url = Some h,
            jf_recommendation = recommendation\<rparr>))))))))"

definition analyze_check_json :: "json \<Rightarrow> error + json_finding" where
  "analyze_check_json c =
     and_then (py_get c ''title'' (JStr '''')) (\<lambda>t.
     and_then (py_in ''CRITICAL'' t) (\<lambda>critical.
     and_then (if critical then Inr ''critical''
               else and_then (py_in ''WARNING'' t)
                      (\<lambda>warning. Inr (if warning then ''medium'' else ''info''))) (\<lambda>sev.
     and_then (py_get c ''content'' (JStr '''')) (\<lambda>desc.
     and_then (lookup_json t (JStr '''')) (\<lambda>recommendation.
       Inr \<lparr>jf_title = t, jf_severity = JStr sev, jf_description = desc, jf_url = None,
            jf_recommendation = recommendation\<rparr>)))))"

text \<open>A loop that appends one finding per element and stops at the first exception.\<close>

fun for_each :: "('a \<Rightarrow> error + 'b) \<Rightarrow> 'a list \<Rightarrow> error + 'b list" where
  "for_each f [] = Inr []"
| "for_each f (x # xs) =
     and_then (f x) (\<lambda>y. and_then (for_each f xs) (\<lambda>ys. Inr (y # ys)))"

definition analyze_bundle_json :: "json \<Rightarrow> error + json_finding list" where
  "analyze_bundle_json vuln_data =
     and_then (py_in ''results'' vuln_data) (\<lambda>scanner.
       if scanner
       then and_then (py_item vuln_data ''results'') (\<lambda>rs.
            and_then (py_iter rs) (for_each analyze_result_json))
       else and_then (py_in ''manual_checks'' vuln_data) (\<lambda>manual.
         if manual
         then and_then (py_item vuln_data ''manual_checks'') (\<lambda>cs.
              and_then (py_iter cs) (for_each analyze_check_json))
         else Inr []))"

fun analyze_vulnerabilities_json :: "json list \<Rightarrow> error + json_finding list" where
  "analyze_vulnerabilities_json [] = Inr []"
| "analyze_vulnerabilities_json (vuln_data # vulnerabilities) =
     and_then (analyze_bundle_json vuln_data) (\<lambda>fs.
     and_then (analyze_vulnerabilities_json vulnerabilities) (\<lambda>gs. Inr (fs @ gs)))"

text \<open>
  The typed records are the dictionaries whose values have the expected types; these
  functions give the dictionary of a record. \<open>normalizer_refines\<close> below shows that on
  them the normalizer never raises and returns what \<open>analyze_vulnerabilities\<close> returns.
\<close>

definition opt_item :: "string \<Rightarrow> string option \<Rightarrow> (string \<times> json) list" where
  "opt_item k v = (case v of None \<Rightarrow> [] | Some s \<Rightarrow> [(k, JStr s)])"

definition json_of_info :: "info \<Rightarrow> json" where
  "json_of_info i =
     JDict (opt_item ''name'' (name i) @ opt_item ''severity'' (info_severity i)
            @ opt_item ''description'' (info_description i))"

definition json_of_result :: "result \<Rightarrow> json" where
  "json_of_result r =
     JDict ((case info r of None \<Rightarrow> [] | Some i \<Rightarrow> [(''info'', json_of_info i)])
            @ opt_item ''host'' (host r) @ opt_item ''matcher-name'' (matcher_name r))"

definition json_of_check :: "check \<Rightarrow> json" where
  "json_of_check c = JDict (opt_item ''title'' (check_title c) @ opt_item ''content'' (content c))"

definition json_of_bundle :: "raw_bundle \<Rightarrow> json" where
  "json_of_bundle b =
     JDict ((case results b of None \<Rightarrow> [] | Some rs \<Rightarrow> [(''results'', JList (map json_of_result rs))])
            @ (case manual_checks b of
                 None \<Rightarrow> []
               | Some cs \<Rightarrow> [(''manual_checks'', JList (map json_of_check cs))]))"

definition json_of_finding :: "finding \<Rightarrow> json_finding" where
  "json_of_finding f =
     \<lparr>jf_title = JStr (dict_get (title f) ''''),
      jf_severity = JStr (dict_get (severity f) ''''),
      jf_description = JStr (dict_get (description f) ''''),
      jf_url = map_option JStr (url f),
      jf_recommendation = dict_get (recommendation f) default_recommendation\<rparr>"

section \<open>Analysis\<close>

record vuln_count =
  n_critical :: nat
  n_high :: nat
  n_medium :: nat
  n_low :: nat
  n_info :: nat

definition count_vuln :: "vuln_count \<Rightarrow> finding \<Rightarrow> vuln_count" where
  "count_vuln c vuln =
     (let sev = lower (dict_get (severity vuln) ''info'')
      in if sev = ''critical'' then c\<lparr>n_critical := n_critical c + 1\<rparr>
         else if sev = ''high'' then c\<lparr>n_high := n_high c + 1\<rparr>
         else if sev = ''medium'' then c\<lparr>n_medium := n_medium c + 1\<rparr>
         else if sev = ''low'' then c\<lparr>n_low := n_low c + 1\<rparr>
         else c\<lparr>n_info := n_info c + 1\<rparr>)"

definition count_vulnerabilities :: "finding list \<Rightarrow> vuln_count" where
  "count_vulnerabilities vs =
     foldl count_vuln \<lparr>n_critical = 0, n_high = 0, n_medium = 0, n_low = 0, n_info = 0\<rparr> vs"

record subdomain_data =
  subdomains :: "string list option"

record directory_data =
  directory_scan :: "directory list option"

record livehost_data =
  live_hosts :: "string list option"

record scan_data =
  res_subdomains :: "subdomain_data option"
  res_ports :: "port_data option"
  res_directories :: "directory_data option"
  res_livehosts :: "livehost_data option"
  res_vulnerabilities :: "raw_bundle list option"

record analysis_summary =
  subdomain_count :: "nat option"
  open_port_count :: "nat option"
  directory_count :: "nat option"
  live_host_count :: "nat option"
  vulnerability_count :: "vuln_count option"

record analysis_details =
  interesting_subdomains :: "string list option"
  open_ports :: "open_port list option"
  interesting_directories :: "directory list option"
  vulnerabilities :: "finding list option"

record analysis =
  analysis_summary :: analysis_summary
  analysis_details :: analysis_details

text \<open>
  \<^verbatim>\<open>analyze_results\<close>, without the wall-clock \<^verbatim>\<open>timestamp\<close> it also stores: a section
  of the scan data that is absent leaves its summary and detail entries absent.
\<close>

definition analyze_results :: "scan_data \<Rightarrow> analysis" where
  "analyze_results res =
     \<lparr>analysis_summary =
        \<lparr>subdomain_count =
           map_option (\<lambda>s. length (dict_get (subdomains s) [])) (res_subdomains res),
         open_port_count =
           map_option
             (\<lambda>p. foldl (\<lambda>n h. n + length (dict_get (ports h) [])) 0 (dict_get (scan_results p) []))
             (res_ports res),
         directory_count =
           map_option (\<lambda>d. length (dict_get (directory_scan d) [])) (res_directories res),
         live_host_count =
           map_option (\<lambda>l. length (dict_get (live_hosts l) [])) (res_livehosts res),
         vulnerability_count =
           map_option (\<lambda>v. count_vulnerabilities (analyze_vulnerabilities v))
             (res_vulnerabilities res)\<rparr>,
      analysis_details =
        \<lparr>interesting_subdomains =
           map_option (\<lambda>s. find_interesting_subdomains (dict_get (subdomains s) []))
             (res_subdomains res),
         open_ports = map_option analyze_ports (res_ports res),
         interesting_directories =
           map_option (\<lambda>d. find_interesting_directories (dict_get (directory_scan d) []))
             (res_directories res),
         vulnerabilities = map_option analyze_vulnerabilities (res_vulnerabilities res)\<rparr>\<rparr>"

section \<open>Recommendation engine\<close>

text \<open>\<^verbatim>\<open>str.replace(old, new)\<close>: every occurrence of \<open>old\<close>, left to right, without overlap.\<close>

function str_replace :: "string \<Rightarrow> string \<Rightarrow> string \<Rightarrow> string" where
  "str_replace old new [] = (if old = [] then new else [])"
| "str_replace old new (c # cs) =
     (if old = [] then new @ c # str_replace old new cs
      else if prefix old (c # cs) then new @ str_replace old new (drop (length old) (c # cs))
      else c # str_replace old new cs)"
  by pat_completeness auto
termination
  by (relation "measure (\<lambda>(old, new, s). length s)") (auto simp: neq_Nil_conv)

record recommendation = template +
  affected_url :: "string option"
  timeframe :: string

definition get_recommendation_for_vulnerability :: "finding \<Rightarrow> recommendation" where
  "get_recommendation_for_vulnerability vuln =
     (let vuln_type = lower (dict_get (title vuln) '''');
          sev = lower (dict_get (severity vuln) ''medium'');
          rec = get_recommendation_for_vulnerability_type vuln_type '''';
          target = (case details vuln of
                      None \<Rightarrow> dict_get (url vuln) ''''
                    | Some d \<Rightarrow> dict_get (details_url d) (dict_get (url vuln) ''''))
      in \<lparr>summary = summary rec,
          steps = (if target \<noteq> [] then map (str_replace ''{{URL}}'' target) (steps rec)
                   else steps rec),
          code_example = code_example rec,
          references = references rec,
          affected_url = (if target \<noteq> [] then Some target else None),
          timeframe =
            (if sev = ''critical'' \<or> sev = ''high'' then ''Immediate (within 24-48 hours)''
             else if sev = ''medium'' then ''Short-term (within 1-2 weeks)''
             else ''Medium-term (within 1 month)'')\<rparr>)"

text \<open>\<^verbatim>\<open>str(n)\<close> for an integer, as the f-strings of the port entries render it.\<close>

definition digit_char :: "nat \<Rightarrow> char" where
  "digit_char d = ''0123456789'' ! d"

function str_nat :: "nat \<Rightarrow> string" where
  "str_nat n = (if n < 10 then [digit_char n] else str_nat (n div 10) @ [digit_char (n mod 10)])"
  by pat_completeness auto
termination
  by (relation "measure id") auto

definition str_int :: "int \<Rightarrow> string" where
  "str_int i = (if i < 0 then CHR ''-'' # str_nat (nat (- i)) else str_nat (nat i))"

datatype advice = Text string | Detailed recommendation

record entry =
  entry_title :: string
  entry_description :: string
  entry_recommendation :: advice

record recommendations =
  high_priority :: "entry list"
  medium_priority :: "entry list"
  low_priority :: "entry list"

definition vuln_step :: "recommendations \<Rightarrow> finding \<Rightarrow> recommendations" where
  "vuln_step r vuln =
     (let sev = lower (dict_get (severity vuln) ''info'');
          e = \<lparr>entry_title = dict_get (title vuln) ''Unnamed vulnerability'',
               entry_description = dict_get (description vuln) '''',
               entry_recommendation = Detailed (get_recommendation_for_vulnerability vuln)\<rparr>
      in if sev = ''critical'' \<or> sev = ''high''
         then r\<lparr>high_priority := high_priority r @ [e]\<rparr>
         else if sev = ''medium''
         then r\<lparr>medium_priority := medium_priority r @ [e]\<rparr>
         else r\<lparr>low_priority := low_priority r @ [e]\<rparr>)"

definition port_step :: "recommendations \<Rightarrow> open_port \<Rightarrow> recommendations" where
  "port_step r port_info =
     (let p = op_port port_info;
          found = ''Found '' @ op_service port_info @ '' running on port '' @ str_int p
      in if p \<in> set [22, 23, 3389, 5900]
         then r\<lparr>medium_priority := medium_priority r @
                 [\<lparr>entry_title = ''Remote Access Service on Port '' @ str_int p,
                   entry_description = found,
                   entry_recommendation =
                     Text (''Restrict access to port '' @ str_int p @
                           '' to trusted IPs only and ensure strong authentication is in place.'')\<rparr>]\<rparr>
         else if p \<in> set [80, 443]
         then r\<lparr>low_priority := low_priority r @
                 [\<lparr>entry_title = ''Web Service on Port '' @ str_int p,
                   entry_description = found,
                   entry_recommendation =
                     Text ''Ensure the web server is properly configured with secure headers and up-to-date.''\<rparr>]\<rparr>
         else if p \<in> set [21, 20]
         then r\<lparr>medium_priority := medium_priority r @
                 [\<lparr>entry_title = ''FTP Service on Port '' @ str_int p,
                   entry_description = found,
                   entry_recommendation =
                     Text ''Consider replacing FTP with SFTP or FTPS for secure file transfers.''\<rparr>]\<rparr>
         else r)"

text \<open>
  The directory loop reads \<^verbatim>\<open>dir_info['url']\<close> without a default, so a record with no
  \<^verbatim>\<open>url\<close> key raises \<^verbatim>\<open>KeyError\<close> and ends the run of \<^verbatim>\<open>generate_recommendations\<close>.
\<close>

definition dir_step :: "recommendations \<Rightarrow> directory \<Rightarrow> error + recommendations" where
  "dir_step r dir_info =
     (case dir_url dir_info of
        None \<Rightarrow> Inl (KeyError ''url'')
      | Some u \<Rightarrow>
          if contains ''.git'' u \<or> contains ''.env'' u
          then Inr (r\<lparr>high_priority := high_priority r @
                 [\<lparr>entry_title = ''Sensitive Information Exposure'',
                   entry_description = ''Found '' @ u @ '' which may expose sensitive information'',
                   entry_recommendation =
                     Text (''Remove or restrict access to '' @ u @ '' immediately.'')\<rparr>]\<rparr>)
          else if contains ''wp-admin'' u \<or> contains ''admin'' u
          then Inr (r\<lparr>medium_priority := medium_priority r @
                 [\<lparr>entry_title = ''Admin Interface Exposed'',
                   entry_description = ''Found potential admin interface at '' @ u,
                   entry_recommendation =
                     Text ''Restrict access to admin interfaces and use strong passwords and 2FA.''\<rparr>]\<rparr>)
          else Inr r)"

fun dir_loop :: "recommendations \<Rightarrow> directory list \<Rightarrow> error + recommendations" where
  "dir_loop r [] = Inr r"
| "dir_loop r (dir_info # ds) =
     (case dir_step r dir_info of
        Inl e \<Rightarrow> Inl e
      | Inr r' \<Rightarrow> dir_loop r' ds)"

definition generate_recommendations :: "analysis_details \<Rightarrow> error + recommendations" where
  "generate_recommendations ad =
     (let r0 = \<lparr>high_priority = [], medium_priority = [], low_priority = []\<rparr>;
          r1 = (case vulnerabilities ad of None \<Rightarrow> r0 | Some vs \<Rightarrow> foldl vuln_step r0 vs);
          r2 = (case open_ports ad of None \<Rightarrow> r1 | Some ps \<Rightarrow> foldl port_step r1 ps)
      in case interesting_directories ad of
           None \<Rightarrow> Inr r2
         | Some ds \<Rightarrow> dir_loop r2 ds)"

section \<open>Auxiliary facts\<close>

lemma contains_iff_sublist: "contains sub s \<longleftrightarrow> sublist sub s"
  by (induction s) (simp_all add: sublist_Cons_right)

lemma lower_Nil: "lower [] = []"
  by (simp add: lower_def)

lemma sublist_lower: "sublist k s \<Longrightarrow> sublist (lower k) (lower s)"
  unfolding lower_def by (rule map_mono_sublist)

lemma lower_severity_names:
  "lower ''critical'' = ''critical''" "lower ''high'' = ''high''" "lower ''medium'' = ''medium''"
  "lower ''low'' = ''low''" "lower ''info'' = ''info''"
  by (simp_all add: lower_def lower_char_def)

lemma remediation_db_first_words:
  "map (\<lambda>(k, t). first_word k) remediation_db =
     [''sql'', ''xss'', ''open'', ''csrf'', ''ssrf'', ''lfi'', ''rfi'', ''cve'', ''outdated'',
      ''missing'', ''information'', ''directory'', ''default'', ''sensitive'', ''ssl'', ''cors'']"
  by (simp add: remediation_db_def first_word_def is_space_def)

lemma exact_match_first:
  assumes "db = pre @ (k, t) # post"
    and "contains k v \<or> contains k m"
    and "\<forall>(k', t') \<in> set pre. \<not> contains k' v \<and> \<not> contains k' m"
  shows "exact_match db v m = Some t"
  using assms
proof (induction pre arbitrary: db)
  case Nil
  then show ?case by auto
next
  case (Cons p pre)
  obtain k' t' where p: "p = (k', t')" by (cases p)
  from Cons.prems have miss: "\<not> contains k' v \<and> \<not> contains k' m"
    by (simp add: p)
  have "exact_match (pre @ (k, t) # post) v m = Some t"
    using Cons.IH [of "pre @ (k, t) # post"] Cons.prems by simp
  with miss show ?case
    using Cons.prems(1) by (simp add: p)
qed

lemma exact_match_none:
  "(\<forall>(k, t) \<in> set db. \<not> contains k v \<and> \<not> contains k m) \<Longrightarrow> exact_match db v m = None"
  by (induction db) auto

lemma partial_match_none:
  "(\<forall>(k, t) \<in> set db. \<not> re_search_word (first_word k) v \<and> \<not> re_search_word (first_word k) m)
     \<Longrightarrow> partial_match db v m = None"
  by (induction db) auto

lemma set_analyze_vulnerabilities:
  "set (analyze_vulnerabilities bs) = (\<Union>b \<in> set bs. set (analyze_bundle b))"
  by (induction bs) auto

lemma any_keyword_iff: "any_keyword ks s \<longleftrightarrow> (\<exists>k \<in> set ks. sublist k s)"
  by (induction ks) (auto simp: contains_iff_sublist)

lemma find_interesting_directories_filter:
  "find_interesting_directories ds
     = filter (\<lambda>d. any_keyword directory_keywords (lower (dict_get (dir_url d) ''''))) ds"
  by (induction ds) simp_all

lemma interesting_has_url:
  assumes "d \<in> set (find_interesting_directories ds)"
  shows "\<exists>u. dir_url d = Some u"
proof (cases "dir_url d")
  case None
  have "\<not> any_keyword directory_keywords []"
    by (simp add: directory_keywords_def)
  with None assms show ?thesis
    by (simp add: find_interesting_directories_filter dict_get_def lower_Nil)
next
  case (Some u)
  then show ?thesis by simp
qed

lemma lower_git_config: "lower ''/.git/config'' = ''/.git/config''"
  by (simp add: lower_def lower_char_def)

lemma lower_wp_admin: "lower ''/wp-admin/'' = ''/wp-admin/''"
  by (simp add: lower_def lower_char_def)

lemma str_int_22: "str_int 22 = ''22''"
  by (simp add: str_int_def str_nat.simps [of 22] str_nat.simps [of 2] digit_char_def)

lemma str_int_443: "str_int 443 = ''443''"
  by (simp add: str_int_def str_nat.simps [of 443] str_nat.simps [of 44] str_nat.simps [of 4]
        digit_char_def)

section \<open>The word pattern as a statement about the text\<close>

text \<open>
  The search for a word between two boundaries succeeds exactly when the text splits
  around an occurrence of the word with a boundary on each side. For a word that
  begins and ends with a word character this means: no word character next to the
  occurrence. Such a match is in particular a substring match, so the second pass of
  the lookup can only add hits for keys of several words.
\<close>

lemma search_from_iff:
  "search_from w prev s \<longleftrightarrow>
     (\<exists>ps ss. s = ps @ w @ ss
        \<and> boundary (if ps = [] then prev else Some (last ps)) (head_opt (w @ ss))
        \<and> boundary (if w = [] then (if ps = [] then prev else Some (last ps)) else Some (last w))
             (head_opt ss))"
proof (induction s arbitrary: prev)
  case Nil
  then show ?case
    by (auto simp: match_here_def)
next
  case (Cons c cs)
  have here: "match_here w prev (c # cs) \<longleftrightarrow>
      (\<exists>ss. c # cs = w @ ss
        \<and> boundary prev (head_opt (w @ ss))
        \<and> boundary (if w = [] then prev else Some (last w)) (head_opt ss))"
  proof -
    have first: "head_opt (w @ ss) = Some c" if "c # cs = w @ ss" for ss
      using that by (metis head_opt.simps(2))
    show ?thesis
      by (auto simp: match_here_def prefix_def first)
  qed
  have later: "search_from w (Some c) cs \<longleftrightarrow>
      (\<exists>ps ss. c # cs = (c # ps) @ w @ ss
        \<and> boundary (Some (last (c # ps))) (head_opt (w @ ss))
        \<and> boundary (if w = [] then Some (last (c # ps)) else Some (last w)) (head_opt ss))"
    unfolding Cons.IH by (auto split: if_splits)
  have split: "(\<exists>ps ss. c # cs = ps @ w @ ss \<and> P ps ss) \<longleftrightarrow>
      (\<exists>ss. c # cs = w @ ss \<and> P [] ss) \<or> (\<exists>ps ss. c # cs = (c # ps) @ w @ ss \<and> P (c # ps) ss)"
    for P
    by (auto simp: Cons_eq_append_conv)
  show ?case
    unfolding search_from.simps here later
    by (subst split) simp
qed

lemma re_search_word_iff:
  assumes "w \<noteq> []" and "is_word_char (hd w)" and "is_word_char (last w)"
  shows "re_search_word w s \<longleftrightarrow>
     (\<exists>ps ss. s = ps @ w @ ss
        \<and> (ps = [] \<or> \<not> is_word_char (last ps))
        \<and> (ss = [] \<or> \<not> is_word_char (hd ss)))"
proof -
  have hd_w: "head_opt (w @ ss) = Some (hd w)" for ss
    using assms(1) by (cases w) simp_all
  have hd_ss: "word_at (head_opt ss) \<longleftrightarrow> ss \<noteq> [] \<and> is_word_char (hd ss)" for ss
    by (cases ss) simp_all
  show ?thesis
    unfolding re_search_word_def search_from_iff
    using assms by (auto simp: boundary_def hd_w hd_ss)
qed

lemma re_search_word_sublist: "re_search_word w s \<Longrightarrow> sublist w s"
  unfolding re_search_word_def search_from_iff sublist_def by blast

section \<open>A run over analysed data\<close>

text \<open>
  The catalog has no key twice, so the list of pairs iterates as the dictionary of the
  source does.
\<close>

lemma remediation_db_distinct: "distinct (map fst remediation_db)"
  by (simp add: remediation_db_def)

text \<open>
  The directory loop cannot raise on the directories that the interest classifier
  kept, so generating recommendations from the result of \<open>analyze_results\<close> always
  returns the three buckets.
\<close>

lemma dir_step_with_url: "dir_url d = Some u \<Longrightarrow> \<exists>r'. dir_step r d = Inr r'"
  by (simp add: dir_step_def)

lemma dir_loop_total:
  "(\<forall>d \<in> set ds. \<exists>u. dir_url d = Some u) \<Longrightarrow> \<exists>r'. dir_loop r ds = Inr r'"
proof (induction ds arbitrary: r)
  case Nil
  then show ?case by simp
next
  case (Cons d ds)
  then obtain u where "dir_url d = Some u" by auto
  then obtain r1 where "dir_step r d = Inr r1"
    using dir_step_with_url by blast
  moreover from Cons obtain r2 where "dir_loop r1 ds = Inr r2"
    by fastforce
  ultimately show ?case by simp
qed

lemma generate_recommendations_total:
  "\<exists>r. generate_recommendations (analysis_details (analyze_results res)) = Inr r"
proof (cases "res_directories res")
  case None
  then show ?thesis
    by (simp add: generate_recommendations_def analyze_results_def Let_def)
next
  case (Some dd)
  have "\<forall>d \<in> set (find_interesting_directories (dict_get (directory_scan dd) [])).
          \<exists>u. dir_url d = Some u"
    using interesting_has_url by blast
  then show ?thesis
    using Some dir_loop_total
    by (simp add: generate_recommendations_def analyze_results_def Let_def)
qed

lemma recommendations_example:
  "(case generate_recommendations (analysis_details (analyze_results
      \<lparr>res_subdomains = None,
       res_ports = Some \<lparr>scan_results = Some
         [\<lparr>host_name = Some ''10.0.0.5'',
           ports = Some [\<lparr>port = Some 22, service = Some ''ssh'', version = None\<rparr>,
                         \<lparr>port = Some 443, service = Some ''https'', version = None\<rparr>,
                         \<lparr>port = Some 8080, service = None, version = None\<rparr>]\<rparr>]\<rparr>,
       res_directories = Some \<lparr>directory_scan = Some
         [\<lparr>dir_url = Some ''/.git/config'', status = Some 200\<rparr>,
          \<lparr>dir_url = Some ''/images/'', status = Some 200\<rparr>,
          \<lparr>dir_url = Some ''/wp-admin/'', status = Some 301\<rparr>]\<rparr>,
       res_livehosts = None,
       res_vulnerabilities = None\<rparr>)) of
     Inl err \<Rightarrow> False
   | Inr r \<Rightarrow>
       map entry_title (high_priority r) = [''Sensitive Information Exposure'']
       \<and> map entry_title (medium_priority r)
           = [''Remote Access Service on Port 22'', ''Admin Interface Exposed'']
       \<and> map entry_title (low_priority r) = [''Web Service on Port 443''])"
proof -
  have "lower ''/images/'' = ''/images/''"
    by (simp add: lower_def lower_char_def)
  then show ?thesis
    by (simp add: generate_recommendations_def analyze_results_def analyze_ports_def
          analyze_host_def dict_get_def Let_def port_step_def dir_step_def
          directory_keywords_def lower_git_config lower_wp_admin str_int_22 str_int_443)
qed

section \<open>The untyped normalizer and the typed one\<close>

lemma and_then_simps [simp]:
  "and_then (Inr x) f = f x"
  "and_then (Inl e) f = Inl e"
  by (simp_all add: and_then_def)


lemma for_each_map:
  "(\<And>x. x \<in> set xs \<Longrightarrow> f (g x) = Inr (h x)) \<Longrightarrow> for_each f (map g xs) = Inr (map h xs)"
  by (induction xs) simp_all

lemma analyze_result_refines:
  "analyze_result_json (json_of_result r) = Inr (json_of_finding (analyze_result r))"
proof (cases "info r")
  case None
  then show ?thesis
    by (cases "host r"; cases "matcher_name r")
       (simp_all add: analyze_result_json_def json_of_result_def json_of_finding_def
          analyze_result_def dict_get_def opt_item_def)
next
  case (Some i)
  then show ?thesis
    by (cases "host r"; cases "matcher_name r"; cases "name i"; cases "info_severity i";
        cases "info_description i")
       (simp_all add: analyze_result_json_def json_of_result_def json_of_info_def
          json_of_finding_def analyze_result_def dict_get_def opt_item_def)
qed

lemma analyze_check_refines:
  "analyze_check_json (json_of_check c) = Inr (json_of_finding (analyze_check c))"
  by (cases "check_title c"; cases "content c")
     (simp_all add: analyze_check_json_def json_of_check_def json_of_finding_def
        analyze_check_def dict_get_def opt_item_def)

lemma analyze_bundle_refines:
  "analyze_bundle_json (json_of_bundle b) = Inr (map json_of_finding (analyze_bundle b))"
  by (cases "results b"; cases "manual_checks b")
     (simp_all add: analyze_bundle_json_def json_of_bundle_def analyze_bundle_def
        for_each_map [where h = "\<lambda>r. json_of_finding (analyze_result r)"]
        for_each_map [where h = "\<lambda>c. json_of_finding (analyze_check c)"]
        analyze_result_refines analyze_check_refines)

lemma normalizer_refines:
  "analyze_vulnerabilities_json (map json_of_bundle bs)
     = Inr (map json_of_finding (analyze_vulnerabilities bs))"
  by (induction bs) (simp_all add: analyze_bundle_refines)



section \<open>What the port loop and the directory loop add\<close>

text \<open>
  Each loop of \<open>generate_recommendations\<close> only appends to the buckets, and what it
  appends does not depend on the buckets it starts from.
\<close>

lemma port_step_adds:
  "\<exists>m l. (\<forall>r. port_step r p
               = r\<lparr>medium_priority := medium_priority r @ m, low_priority := low_priority r @ l\<rparr>)
     \<and> map entry_title m
         = (if op_port p \<in> {22, 23, 3389, 5900}
            then [''Remote Access Service on Port '' @ str_int (op_port p)]
            else if op_port p \<in> {20, 21}
            then [''FTP Service on Port '' @ str_int (op_port p)]
            else [])
     \<and> map entry_title l
         = (if op_port p \<in> {80, 443} then [''Web Service on Port '' @ str_int (op_port p)] else [])"
proof -
  let ?found = "''Found '' @ op_service p @ '' running on port '' @ str_int (op_port p)"
  consider (remote) "op_port p \<in> {22, 23, 3389, 5900}"
    | (web) "op_port p \<in> {80, 443}"
    | (ftp) "op_port p \<in> {20, 21}"
    | (other) "op_port p \<notin> {22, 23, 3389, 5900} \<and> op_port p \<notin> {80, 443} \<and> op_port p \<notin> {20, 21}"
    by blast
  then show ?thesis
  proof cases
    case remote
    show ?thesis
      by (rule exI [of _ "[\<lparr>entry_title = ''Remote Access Service on Port '' @ str_int (op_port p),
              entry_description = ?found,
              entry_recommendation =
                Text (''Restrict access to port '' @ str_int (op_port p) @
                  '' to trusted IPs only and ensure strong authentication is in place.'')\<rparr>]"],
          rule exI [of _ "[]"])
         (use remote in \<open>auto simp: port_step_def Let_def\<close>)
  next
    case web
    show ?thesis
      by (rule exI [of _ "[]"],
          rule exI [of _ "[\<lparr>entry_title = ''Web Service on Port '' @ str_int (op_port p),
              entry_description = ?found,
              entry_recommendation =
                Text ''Ensure the web server is properly configured with secure headers and up-to-date.''\<rparr>]"])
         (use web in \<open>auto simp: port_step_def Let_def\<close>)
  next
    case ftp
    show ?thesis
      by (rule exI [of _ "[\<lparr>entry_title = ''FTP Service on Port '' @ str_int (op_port p),
              entry_description = ?found,
              entry_recommendation =
                Text ''Consider replacing FTP with SFTP or FTPS for secure file transfers.''\<rparr>]"],
          rule exI [of _ "[]"])
         (use ftp in \<open>auto simp: port_step_def Let_def\<close>)
  next
    case other
    show ?thesis
      by (rule exI [of _ "[]"], rule exI [of _ "[]"])
         (use other in \<open>simp add: port_step_def Let_def\<close>)
  qed
qed

lemma port_loop_adds:
  "\<exists>pm pl. (\<forall>r. foldl port_step r ps
               = r\<lparr>medium_priority := medium_priority r @ pm,
                    low_priority := low_priority r @ pl\<rparr>)
     \<and> map entry_title pm
         = concat (map (\<lambda>p. if op_port p \<in> {22, 23, 3389, 5900}
                             then [''Remote Access Service on Port '' @ str_int (op_port p)]
                             else if op_port p \<in> {20, 21}
                             then [''FTP Service on Port '' @ str_int (op_port p)]
                             else []) ps)
     \<and> map entry_title pl
         = concat (map (\<lambda>p. if op_port p \<in> {80, 443}
                             then [''Web Service on Port '' @ str_int (op_port p)]
                             else []) ps)"
proof (induction ps)
  case Nil
  show ?case
    by (rule exI [of _ "[]"], rule exI [of _ "[]"]) simp
next
  case (Cons p ps)
  from port_step_adds [of p] obtain m l
    where step: "\<And>r. port_step r p
               = r\<lparr>medium_priority := medium_priority r @ m, low_priority := low_priority r @ l\<rparr>"
      and m: "map entry_title m
         = (if op_port p \<in> {22, 23, 3389, 5900}
            then [''Remote Access Service on Port '' @ str_int (op_port p)]
            else if op_port p \<in> {20, 21}
            then [''FTP Service on Port '' @ str_int (op_port p)]
            else [])"
      and l: "map entry_title l
         = (if op_port p \<in> {80, 443} then [''Web Service on Port '' @ str_int (op_port p)] else [])"
    by blast
  from Cons.IH obtain pm pl
    where rest: "\<And>r. foldl port_step r ps
               = r\<lparr>medium_priority := medium_priority r @ pm,
                    low_priority := low_priority r @ pl\<rparr>"
      and pm: "map entry_title pm
         = concat (map (\<lambda>p. if op_port p \<in> {22, 23, 3389, 5900}
                             then [''Remote Access Service on Port '' @ str_int (op_port p)]
                             else if op_port p \<in> {20, 21}
                             then [''FTP Service on Port '' @ str_int (op_port p)]
                             else []) ps)"
      and pl: "map entry_title pl
         = concat (map (\<lambda>p. if op_port p \<in> {80, 443}
                             then [''Web Service on Port '' @ str_int (op_port p)]
                             else []) ps)"
    by blast
  have "\<forall>r. foldl port_step r (p # ps)
               = r\<lparr>medium_priority := medium_priority r @ (m @ pm),
                    low_priority := low_priority r @ (l @ pl)\<rparr>"
    by (simp add: step rest)
  moreover have "map entry_title (m @ pm)
         = concat (map (\<lambda>p. if op_port p \<in> {22, 23, 3389, 5900}
                             then [''Remote Access Service on Port '' @ str_int (op_port p)]
                             else if op_port p \<in> {20, 21}
                             then [''FTP Service on Port '' @ str_int (op_port p)]
                             else []) (p # ps))"
    by (simp add: m pm)
  moreover have "map entry_title (l @ pl)
         = concat (map (\<lambda>p. if op_port p \<in> {80, 443}
                             then [''Web Service on Port '' @ str_int (op_port p)]
                             else []) (p # ps))"
    by (simp add: l pl)
  ultimately show ?case by blast
qed

lemma dir_step_adds:
  assumes "dir_url d = Some u"
  shows "\<exists>h m. (\<forall>r. dir_step r d
               = Inr (r\<lparr>high_priority := high_priority r @ h,
                         medium_priority := medium_priority r @ m\<rparr>))
     \<and> map (\<lambda>e. (entry_title e, entry_description e)) h
         = (if sublist ''.git'' u \<or> sublist ''.env'' u
            then [(''Sensitive Information Exposure'',
                   ''Found '' @ u @ '' which may expose sensitive information'')]
            else [])
     \<and> map (\<lambda>e. (entry_title e, entry_description e)) m
         = (if \<not> (sublist ''.git'' u \<or> sublist ''.env'' u)
               \<and> (sublist ''wp-admin'' u \<or> sublist ''admin'' u)
            then [(''Admin Interface Exposed'', ''Found potential admin interface at '' @ u)]
            else [])"
proof -
  consider (sensitive) "sublist ''.git'' u \<or> sublist ''.env'' u"
    | (admin) "\<not> (sublist ''.git'' u \<or> sublist ''.env'' u)"
        "sublist ''wp-admin'' u \<or> sublist ''admin'' u"
    | (other) "\<not> (sublist ''.git'' u \<or> sublist ''.env'' u)"
        "\<not> (sublist ''wp-admin'' u \<or> sublist ''admin'' u)"
    by blast
  then show ?thesis
  proof cases
    case sensitive
    show ?thesis
      by (rule exI [of _ "[\<lparr>entry_title = ''Sensitive Information Exposure'',
              entry_description = ''Found '' @ u @ '' which may expose sensitive information'',
              entry_recommendation =
                Text (''Remove or restrict access to '' @ u @ '' immediately.'')\<rparr>]"],
          rule exI [of _ "[]"])
         (use sensitive assms in \<open>auto simp: dir_step_def contains_iff_sublist\<close>)
  next
    case admin
    show ?thesis
      by (rule exI [of _ "[]"],
          rule exI [of _ "[\<lparr>entry_title = ''Admin Interface Exposed'',
              entry_description = ''Found potential admin interface at '' @ u,
              entry_recommendation =
                Text ''Restrict access to admin interfaces and use strong passwords and 2FA.''\<rparr>]"])
         (use admin assms in \<open>auto simp: dir_step_def contains_iff_sublist\<close>)
  next
    case other
    show ?thesis
      by (rule exI [of _ "[]"], rule exI [of _ "[]"])
         (use other assms in \<open>simp add: dir_step_def contains_iff_sublist\<close>)
  qed
qed

lemma dir_loop_adds:
  assumes "\<forall>d \<in> set ds. \<exists>u. dir_url d = Some u"
  shows "\<exists>dh dm. (\<forall>r. dir_loop r ds
               = Inr (r\<lparr>high_priority := high_priority r @ dh,
                         medium_priority := medium_priority r @ dm\<rparr>))
     \<and> map (\<lambda>e. (entry_title e, entry_description e)) dh
         = concat (map (\<lambda>d. case dir_url d of
               None \<Rightarrow> []
             | Some u \<Rightarrow>
                 if sublist ''.git'' u \<or> sublist ''.env'' u
                 then [(''Sensitive Information Exposure'',
                        ''Found '' @ u @ '' which may expose sensitive information'')]
                 else []) ds)
     \<and> map (\<lambda>e. (entry_title e, entry_description e)) dm
         = concat (map (\<lambda>d. case dir_url d of
               None \<Rightarrow> []
             | Some u \<Rightarrow>
                 if \<not> (sublist ''.git'' u \<or> sublist ''.env'' u)
                    \<and> (sublist ''wp-admin'' u \<or> sublist ''admin'' u)
                 then [(''Admin Interface Exposed'', ''Found potential admin interface at '' @ u)]
                 else []) ds)"
  using assms
proof (induction ds)
  case Nil
  show ?case
    by (rule exI [of _ "[]"], rule exI [of _ "[]"]) simp
next
  case (Cons d ds)
  then obtain u where u: "dir_url d = Some u"
    by auto
  from dir_step_adds [OF u] obtain h m
    where step: "\<And>r. dir_step r d
               = Inr (r\<lparr>high_priority := high_priority r @ h,
                         medium_priority := medium_priority r @ m\<rparr>)"
      and h: "map (\<lambda>e. (entry_title e, entry_description e)) h
         = (if sublist ''.git'' u \<or> sublist ''.env'' u
            then [(''Sensitive Information Exposure'',
                   ''Found '' @ u @ '' which may expose sensitive information'')]
            else [])"
      and m: "map (\<lambda>e. (entry_title e, entry_description e)) m
         = (if \<not> (sublist ''.git'' u \<or> sublist ''.env'' u)
               \<and> (sublist ''wp-admin'' u \<or> sublist ''admin'' u)
            then [(''Admin Interface Exposed'', ''Found potential admin interface at '' @ u)]
            else [])"
    by blast
  from Cons obtain dh dm
    where rest: "\<And>r. dir_loop r ds
               = Inr (r\<lparr>high_priority := high_priority r @ dh,
                         medium_priority := medium_priority r @ dm\<rparr>)"
      and dh: "map (\<lambda>e. (entry_title e, entry_description e)) dh
         = concat (map (\<lambda>d. case dir_url d of
               None \<Rightarrow> []
             | Some u \<Rightarrow>
                 if sublist ''.git'' u \<or> sublist ''.env'' u
                 then [(''Sensitive Information Exposure'',
                        ''Found '' @ u @ '' which may expose sensitive information'')]
                 else []) ds)"
      and dm: "map (\<lambda>e. (entry_title e, entry_description e)) dm
         = concat (map (\<lambda>d. case dir_url d of
               None \<Rightarrow> []
             | Some u \<Rightarrow>
                 if \<not> (sublist ''.git'' u \<or> sublist ''.env'' u)
                    \<and> (sublist ''wp-admin'' u \<or> sublist ''admin'' u)
                 then [(''Admin Interface Exposed'', ''Found potential admin interface at '' @ u)]
                 else []) ds)"
    by auto
  have "\<forall>r. dir_loop r (d # ds)
               = Inr (r\<lparr>high_priority := high_priority r @ (h @ dh),
                         medium_priority := medium_priority r @ (m @ dm)\<rparr>)"
    by (simp add: step rest)
  moreover have "map (\<lambda>e. (entry_title e, entry_description e)) (h @ dh)
         = concat (map (\<lambda>d. case dir_url d of
               None \<Rightarrow> []
             | Some u \<Rightarrow>
                 if sublist ''.git'' u \<or> sublist ''.env'' u
                 then [(''Sensitive Information Exposure'',
                        ''Found '' @ u @ '' which may expose sensitive information'')]
                 else []) (d # ds))"
    by (simp add: h dh u)
  moreover have "map (\<lambda>e. (entry_title e, entry_description e)) (m @ dm)
         = concat (map (\<lambda>d. case dir_url d of
               None \<Rightarrow> []
             | Some u \<Rightarrow>
                 if \<not> (sublist ''.git'' u \<or> sublist ''.env'' u)
                    \<and> (sublist ''wp-admin'' u \<or> sublist ''admin'' u)
                 then [(''Admin Interface Exposed'', ''Found potential admin interface at '' @ u)]
                 else []) (d # ds))"
    by (simp add: m dm u)
  ultimately show ?case by blast
qed

section \<open>Remediation lookup: first substring match, default\<close>

lemma lookup_xss_example:
  "get_recommendation_for_vulnerability_type ''Reflected XSS on /search'' '''' = rec_xss"
proof -
  have "lower ''Reflected XSS on /search'' = ''reflected xss on /search''"
    by code_simp
  then show ?thesis
    by (simp add: get_recommendation_for_vulnerability_type_def lower_Nil remediation_db_def)
qed

lemma lookup_weird_example:
  "get_recommendation_for_vulnerability_type ''Unknown Weird Bug'' '''' = default_recommendation"
proof -
  have "lower ''Unknown Weird Bug'' = ''unknown weird bug''"
    by code_simp
  then show ?thesis
    by (simp add: get_recommendation_for_vulnerability_type_def lower_Nil remediation_db_def
          re_search_word_def first_word_def is_space_def match_here_def boundary_def
          is_word_char_def)
qed

text \<open>
  Claim C1. For every pair of names, both lower-cased, the lookup returns the template
  of the first key of the catalog, in catalog order, that occurs as a substring of the
  vulnerability name or of the matcher name. The name \<open>Reflected XSS on /search\<close> gives
  the \<open>xss\<close> template. Names that no key matches, neither as a substring nor by the word
  pattern of its first word, give the generic default template, as \<open>Unknown Weird Bug\<close> does.
\<close>

theorem lookup_first_substring_match:
  "(\<forall>vuln_name matcher_name pre k t post.
      remediation_db = pre @ (k, t) # post
      \<and> (sublist k (lower vuln_name) \<or> sublist k (lower matcher_name))
      \<and> (\<forall>(k', t') \<in> set pre.
            \<not> sublist k' (lower vuln_name) \<and> \<not> sublist k' (lower matcher_name))
      \<longrightarrow> get_recommendation_for_vulnerability_type vuln_name matcher_name = t)
   \<and> get_recommendation_for_vulnerability_type ''Reflected XSS on /search'' '''' = rec_xss
   \<and> (\<forall>vuln_name matcher_name.
        (\<forall>(k, t) \<in> set remediation_db.
            \<not> sublist k (lower vuln_name) \<and> \<not> sublist k (lower matcher_name)
            \<and> \<not> re_search_word (first_word k) (lower vuln_name)
            \<and> \<not> re_search_word (first_word k) (lower matcher_name))
        \<longrightarrow> get_recommendation_for_vulnerability_type vuln_name matcher_name
              = default_recommendation)
   \<and> get_recommendation_for_vulnerability_type ''Unknown Weird Bug'' '''' = default_recommendation"
proof (intro conjI allI impI)
  fix vuln_name matcher_name pre k t post
  assume "remediation_db = pre @ (k, t) # post
      \<and> (sublist k (lower vuln_name) \<or> sublist k (lower matcher_name))
      \<and> (\<forall>(k', t') \<in> set pre.
            \<not> sublist k' (lower vuln_name) \<and> \<not> sublist k' (lower matcher_name))"
  then have "exact_match remediation_db (lower vuln_name) (lower matcher_name) = Some t"
    by (intro exact_match_first [of _ pre k t post]) (simp_all add: contains_iff_sublist)
  then show "get_recommendation_for_vulnerability_type vuln_name matcher_name = t"
    by (simp add: get_recommendation_for_vulnerability_type_def)
next
  show "get_recommendation_for_vulnerability_type ''Reflected XSS on /search'' '''' = rec_xss"
    by (rule lookup_xss_example)
next
  fix vuln_name matcher_name
  assume none: "\<forall>(k, t) \<in> set remediation_db.
            \<not> sublist k (lower vuln_name) \<and> \<not> sublist k (lower matcher_name)
            \<and> \<not> re_search_word (first_word k) (lower vuln_name)
            \<and> \<not> re_search_word (first_word k) (lower matcher_name)"
  have "exact_match remediation_db (lower vuln_name) (lower matcher_name) = None"
    by (rule exact_match_none) (use none in \<open>auto simp: contains_iff_sublist\<close>)
  moreover have "partial_match remediation_db (lower vuln_name) (lower matcher_name) = None"
    by (rule partial_match_none) (use none in auto)
  ultimately show "get_recommendation_for_vulnerability_type vuln_name matcher_name
              = default_recommendation"
    by (simp add: get_recommendation_for_vulnerability_type_def)
next
  show "get_recommendation_for_vulnerability_type ''Unknown Weird Bug'' '''' = default_recommendation"
    by (rule lookup_weird_example)
qed

theorem lookup_first_substring_match_witness:
  "get_recommendation_for_vulnerability_type ''Stored XSS in profile'' ''reflect'' = rec_xss
   \<and> get_recommendation_for_vulnerability_type ''Banner Grab'' ''ver'' = default_recommendation"
proof -
  note first_hit = lookup_first_substring_match [THEN conjunct1, rule_format]
  note no_hit =
    lookup_first_substring_match [THEN conjunct2, THEN conjunct2, THEN conjunct1, rule_format]
  have split: "remediation_db =
      [(''sql injection'', rec_sql_injection)] @ (''xss'', rec_xss) # drop 2 remediation_db"
    by (simp add: remediation_db_def)
  have hit: "sublist ''xss'' (lower ''Stored XSS in profile'')
      \<and> \<not> sublist ''sql injection'' (lower ''Stored XSS in profile'')
      \<and> \<not> sublist ''sql injection'' (lower ''reflect'')"
    by code_simp
  have a: "get_recommendation_for_vulnerability_type ''Stored XSS in profile'' ''reflect'' = rec_xss"
    by (rule first_hit [where pre = "[(''sql injection'', rec_sql_injection)]" and k = "''xss''"
          and post = "drop 2 remediation_db"])
       (use split hit in simp)
  have lows: "lower ''Banner Grab'' = ''banner grab''" "lower ''ver'' = ''ver''"
    by code_simp+
  have miss: "\<forall>(k, t) \<in> set remediation_db.
      \<not> sublist k (lower ''Banner Grab'') \<and> \<not> sublist k (lower ''ver'')
      \<and> \<not> re_search_word (first_word k) (lower ''Banner Grab'')
      \<and> \<not> re_search_word (first_word k) (lower ''ver'')"
    unfolding lows
    by (simp add: remediation_db_def contains_iff_sublist [symmetric]
          re_search_word_def first_word_def is_space_def match_here_def boundary_def
          is_word_char_def)
  have b: "get_recommendation_for_vulnerability_type ''Banner Grab'' ''ver'' = default_recommendation"
    by (rule no_hit) (use miss in blast)
  from a b show ?thesis by simp
qed

section \<open>Remediation lookup: the \<open>cve\<close> example\<close>

lemma lower_cve_example: "lower ''CVE-2023-1234 RCE'' = ''cve-2023-1234 rce''"
  by code_simp

text \<open>
  Claim C4, as stated, has no key matching \<open>CVE-2023-1234 RCE\<close> in the first pass. The
  first pass does match: \<open>cve\<close> is a substring of the lower-cased name.
\<close>

theorem cve_first_pass_counterexample:
  "exact_match remediation_db (lower ''CVE-2023-1234 RCE'') (lower '''') \<noteq> None"
  by (simp add: lower_cve_example lower_Nil remediation_db_def)

text \<open>
  Claim C4, amended. For the name \<open>CVE-2023-1234 RCE\<close> with an empty matcher name the
  first, substring pass already stops at the key \<open>cve\<close>, no earlier key of the catalog
  being a substring of the lower-cased name, and the lookup returns the \<open>cve\<close> template;
  the word pattern of the second pass would select the same key.
\<close>

theorem cve_lookup:
  "exact_match remediation_db (lower ''CVE-2023-1234 RCE'') (lower '''') = Some rec_cve
   \<and> get_recommendation_for_vulnerability_type ''CVE-2023-1234 RCE'' '''' = rec_cve
   \<and> partial_match remediation_db (lower ''CVE-2023-1234 RCE'') (lower '''') = Some rec_cve"
proof (intro conjI)
  show first: "exact_match remediation_db (lower ''CVE-2023-1234 RCE'') (lower '''') = Some rec_cve"
    by (simp add: lower_cve_example lower_Nil remediation_db_def)
  then show "get_recommendation_for_vulnerability_type ''CVE-2023-1234 RCE'' '''' = rec_cve"
    by (simp add: get_recommendation_for_vulnerability_type_def)
  show "partial_match remediation_db (lower ''CVE-2023-1234 RCE'') (lower '''') = Some rec_cve"
    by (simp add: lower_cve_example lower_Nil remediation_db_def
          re_search_word_def first_word_def is_space_def match_here_def boundary_def
          is_word_char_def)
qed

section \<open>Manual checks: severity from the title\<close>

text \<open>
  Claim C3. For every manual-check record the normalizer keeps the raw title and sets
  the severity by a case-sensitive substring search on it: \<open>critical\<close> if the title
  contains \<open>CRITICAL\<close>, else \<open>medium\<close> if it contains \<open>WARNING\<close>, else \<open>info\<close>.
\<close>

theorem manual_check_severity:
  "results b = None \<Longrightarrow> manual_checks b = Some cs \<Longrightarrow>
     map (\<lambda>f. (title f, severity f)) (analyze_vulnerabilities [b])
       = map (\<lambda>c. let t = dict_get (check_title c) ''''
                   in (Some t,
                       Some (if sublist ''CRITICAL'' t then ''critical''
                             else if sublist ''WARNING'' t then ''medium''
                             else ''info''))) cs"
  by (simp add: analyze_bundle_def analyze_check_def contains_iff_sublist Let_def)

theorem manual_check_severity_witness:
  "map (\<lambda>f. (title f, severity f))
     (analyze_vulnerabilities
        [\<lparr>results = None,
          manual_checks = Some
            [\<lparr>check_title = Some ''WARNING: outdated TLS'', content = Some ''TLS 1.0 enabled''\<rparr>,
             \<lparr>check_title = Some ''CRITICAL: SQLi in /login'', content = None\<rparr>,
             \<lparr>check_title = Some ''Informational note'', content = None\<rparr>,
             \<lparr>check_title = Some ''CRITICAL WARNING'', content = None\<rparr>,
             \<lparr>check_title = Some ''critical warning'', content = None\<rparr>,
             \<lparr>check_title = None, content = None\<rparr>]\<rparr>])
   = [(Some ''WARNING: outdated TLS'', Some ''medium''),
      (Some ''CRITICAL: SQLi in /login'', Some ''critical''),
      (Some ''Informational note'', Some ''info''),
      (Some ''CRITICAL WARNING'', Some ''critical''),
      (Some ''critical warning'', Some ''info''),
      (Some '''', Some ''info'')]"
  using manual_check_severity
    [of "\<lparr>results = None,
          manual_checks = Some
            [\<lparr>check_title = Some ''WARNING: outdated TLS'', content = Some ''TLS 1.0 enabled''\<rparr>,
             \<lparr>check_title = Some ''CRITICAL: SQLi in /login'', content = None\<rparr>,
             \<lparr>check_title = Some ''Informational note'', content = None\<rparr>,
             \<lparr>check_title = Some ''CRITICAL WARNING'', content = None\<rparr>,
             \<lparr>check_title = Some ''critical warning'', content = None\<rparr>,
             \<lparr>check_title = None, content = None\<rparr>]\<rparr>"]
  by (simp add: dict_get_def contains_iff_sublist [symmetric])

section \<open>Normalizer: unrecognized bundles and missing fields\<close>




section \<open>Findings in the analysis details\<close>

lemma foldl_count_vuln:
  "foldl count_vuln c vs =
     \<lparr>n_critical = n_critical c
        + length (filter (\<lambda>f. lower (dict_get (severity f) ''info'') = ''critical'') vs),
      n_high = n_high c
        + length (filter (\<lambda>f. lower (dict_get (severity f) ''info'') = ''high'') vs),
      n_medium = n_medium c
        + length (filter (\<lambda>f. lower (dict_get (severity f) ''info'') = ''medium'') vs),
      n_low = n_low c
        + length (filter (\<lambda>f. lower (dict_get (severity f) ''info'') = ''low'') vs),
      n_info = n_info c
        + length (filter (\<lambda>f. lower (dict_get (severity f) ''info'')
                    \<notin> {''critical'', ''high'', ''medium'', ''low''}) vs)\<rparr>"
proof (induction vs arbitrary: c)
  case Nil
  then show ?case by simp
next
  case (Cons v vs)
  have step: "foldl count_vuln c (v # vs) = foldl count_vuln (count_vuln c v) vs"
    by simp
  show ?case
    unfolding step Cons.IH
    by (simp add: count_vuln_def Let_def)
qed

lemma recommendation_attached:
  "f \<in> set (analyze_vulnerabilities bs) \<Longrightarrow> recommendation f \<noteq> None"
  by (auto simp: set_analyze_vulnerabilities analyze_bundle_def analyze_result_def
        analyze_check_def Let_def split: option.splits)

lemma severities_of_analysis:
  "map severity (analyze_vulnerabilities bs)
     = concat (map (\<lambda>b. case results b of
          Some rs \<Rightarrow>
            map (\<lambda>r. Some (case info r of
                             None \<Rightarrow> ''info''
                           | Some i \<Rightarrow> (case info_severity i of
                                         None \<Rightarrow> ''info''
                                       | Some s \<Rightarrow> s))) rs
        | None \<Rightarrow>
            (case manual_checks b of
               Some cs \<Rightarrow>
                 map (\<lambda>c. Some (if sublist ''CRITICAL'' (case check_title c of None \<Rightarrow> '''' | Some t \<Rightarrow> t)
                                then ''critical''
                                else if sublist ''WARNING'' (case check_title c of None \<Rightarrow> '''' | Some t \<Rightarrow> t)
                                then ''medium''
                                else ''info'')) cs
             | None \<Rightarrow> [])) bs)"
proof (induction bs)
  case Nil
  then show ?case by simp
next
  case (Cons b bs)
  have "map severity (analyze_bundle b)
     = (case results b of
          Some rs \<Rightarrow>
            map (\<lambda>r. Some (case info r of
                             None \<Rightarrow> ''info''
                           | Some i \<Rightarrow> (case info_severity i of
                                         None \<Rightarrow> ''info''
                                       | Some s \<Rightarrow> s))) rs
        | None \<Rightarrow>
            (case manual_checks b of
               Some cs \<Rightarrow>
                 map (\<lambda>c. Some (if sublist ''CRITICAL'' (case check_title c of None \<Rightarrow> '''' | Some t \<Rightarrow> t)
                                then ''critical''
                                else if sublist ''WARNING'' (case check_title c of None \<Rightarrow> '''' | Some t \<Rightarrow> t)
                                then ''medium''
                                else ''info'')) cs
             | None \<Rightarrow> []))"
    by (simp add: analyze_bundle_def analyze_result_def analyze_check_def dict_get_def Let_def
          contains_iff_sublist comp_def split: option.splits)
  with Cons show ?case by simp
qed

text \<open>
  Claim C2, as stated, puts the severity of every finding of the analysis details in
  \<open>critical, high, medium, low, info\<close>. A scanner-format result keeps the severity text
  of the scanner: the value \<open>unknown\<close> arrives in the details unchanged.
\<close>

theorem finding_severity_counterexample:
  "map severity
     (analyze_vulnerabilities
        [\<lparr>results = Some
            [\<lparr>info = Some \<lparr>name = Some ''Exposed panel'', info_severity = Some ''unknown'',
                           info_description = None\<rparr>,
              host = Some ''https://shop.example'', matcher_name = None\<rparr>],
          manual_checks = None\<rparr>])
     = [Some ''unknown'']
   \<and> ''unknown'' \<notin> {''critical'', ''high'', ''medium'', ''low'', ''info''}"
  by (simp add: analyze_bundle_def analyze_result_def dict_get_def Let_def)

text \<open>
  Claim C2, amended. When the scan data has vulnerability bundles, the analysis details
  hold their findings and the summary holds a severity count. Every finding has a
  recommendation attached and a severity field. The severities are, bundle by bundle and
  record by record in input order: for a scanner-format result its own severity text,
  unchanged, or \<open>info\<close> where it has none (so it need not be one of the five names); for a
  manual check \<open>critical\<close>, \<open>medium\<close> or \<open>info\<close>, by its title. A severity is never
  rewritten in the finding. The count of the summary compares in lower case: it has the
  numbers of findings whose severity is \<open>critical\<close>, \<open>high\<close>, \<open>medium\<close> and \<open>low\<close>, and
  counts every other finding under \<open>info\<close>.
\<close>

theorem findings_after_analysis:
  "res_vulnerabilities res = Some bs \<Longrightarrow>
     \<exists>fs c.
       vulnerabilities (analysis_details (analyze_results res)) = Some fs
       \<and> vulnerability_count (analysis_summary (analyze_results res)) = Some c
       \<and> (\<forall>f \<in> set fs. recommendation f \<noteq> None)
       \<and> map severity fs
           = concat (map (\<lambda>b. case results b of
               Some rs \<Rightarrow>
                 map (\<lambda>r. Some (case info r of
                                  None \<Rightarrow> ''info''
                                | Some i \<Rightarrow> (case info_severity i of
                                              None \<Rightarrow> ''info''
                                            | Some s \<Rightarrow> s))) rs
             | None \<Rightarrow>
                 (case manual_checks b of
                    Some cs \<Rightarrow>
                      map (\<lambda>c. Some (if sublist ''CRITICAL'' (case check_title c of None \<Rightarrow> '''' | Some t \<Rightarrow> t)
                                     then ''critical''
                                     else if sublist ''WARNING'' (case check_title c of None \<Rightarrow> '''' | Some t \<Rightarrow> t)
                                     then ''medium''
                                     else ''info'')) cs
                  | None \<Rightarrow> [])) bs)
       \<and> n_critical c = length (filter (\<lambda>f. lower (dict_get (severity f) ''info'') = ''critical'') fs)
       \<and> n_high c = length (filter (\<lambda>f. lower (dict_get (severity f) ''info'') = ''high'') fs)
       \<and> n_medium c = length (filter (\<lambda>f. lower (dict_get (severity f) ''info'') = ''medium'') fs)
       \<and> n_low c = length (filter (\<lambda>f. lower (dict_get (severity f) ''info'') = ''low'') fs)
       \<and> n_info c = length (filter (\<lambda>f. lower (dict_get (severity f) ''info'')
                          \<notin> {''critical'', ''high'', ''medium'', ''low''}) fs)"
proof -
  assume bs: "res_vulnerabilities res = Some bs"
  let ?fs = "analyze_vulnerabilities bs"
  let ?c = "count_vulnerabilities ?fs"
  have details: "vulnerabilities (analysis_details (analyze_results res)) = Some ?fs"
    by (simp add: analyze_results_def bs)
  have count: "vulnerability_count (analysis_summary (analyze_results res)) = Some ?c"
    by (simp add: analyze_results_def bs)
  have attached: "\<forall>f \<in> set ?fs. recommendation f \<noteq> None"
    using recommendation_attached by blast
  have numbers:
    "n_critical ?c = length (filter (\<lambda>f. lower (dict_get (severity f) ''info'') = ''critical'') ?fs)"
    "n_high ?c = length (filter (\<lambda>f. lower (dict_get (severity f) ''info'') = ''high'') ?fs)"
    "n_medium ?c = length (filter (\<lambda>f. lower (dict_get (severity f) ''info'') = ''medium'') ?fs)"
    "n_low ?c = length (filter (\<lambda>f. lower (dict_get (severity f) ''info'') = ''low'') ?fs)"
    "n_info ?c = length (filter (\<lambda>f. lower (dict_get (severity f) ''info'')
                          \<notin> {''critical'', ''high'', ''medium'', ''low''}) ?fs)"
    by (simp_all add: count_vulnerabilities_def foldl_count_vuln)
  show ?thesis
    by (intro exI [of _ ?fs] exI [of _ ?c] conjI details count attached
          severities_of_analysis numbers)
qed

theorem findings_after_analysis_witness:
  "map_option (map severity)
     (vulnerabilities (analysis_details (analyze_results
        \<lparr>res_subdomains = None, res_ports = None, res_directories = None, res_livehosts = None,
         res_vulnerabilities = Some
           [\<lparr>results = Some
               [\<lparr>info = Some \<lparr>name = Some ''SQL injection'', info_severity = Some ''Critical'',
                              info_description = None\<rparr>,
                 host = None, matcher_name = None\<rparr>,
                \<lparr>info = Some \<lparr>name = Some ''Exposed panel'', info_severity = Some ''unknown'',
                              info_description = None\<rparr>,
                 host = Some ''https://shop.example'', matcher_name = None\<rparr>,
                \<lparr>info = None, host = None, matcher_name = None\<rparr>],
             manual_checks = None\<rparr>,
            \<lparr>results = None,
             manual_checks = Some [\<lparr>check_title = Some ''WARNING: old TLS'', content = None\<rparr>]\<rparr>]\<rparr>)))
     = Some [Some ''Critical'', Some ''unknown'', Some ''info'', Some ''medium'']
   \<and> vulnerability_count (analysis_summary (analyze_results
        \<lparr>res_subdomains = None, res_ports = None, res_directories = None, res_livehosts = None,
         res_vulnerabilities = Some
           [\<lparr>results = Some
               [\<lparr>info = Some \<lparr>name = Some ''SQL injection'', info_severity = Some ''Critical'',
                              info_description = None\<rparr>,
                 host = None, matcher_name = None\<rparr>,
                \<lparr>info = Some \<lparr>name = Some ''Exposed panel'', info_severity = Some ''unknown'',
                              info_description = None\<rparr>,
                 host = Some ''https://shop.example'', matcher_name = None\<rparr>,
                \<lparr>info = None, host = None, matcher_name = None\<rparr>],
             manual_checks = None\<rparr>,
            \<lparr>results = None,
             manual_checks = Some [\<lparr>check_title = Some ''WARNING: old TLS'', content = None\<rparr>]\<rparr>]\<rparr>))
     = Some \<lparr>n_critical = 1, n_high = 0, n_medium = 1, n_low = 0, n_info = 2\<rparr>"
proof -
  let ?bs = "[\<lparr>results = Some
               [\<lparr>info = Some \<lparr>name = Some ''SQL injection'', info_severity = Some ''Critical'',
                              info_description = None\<rparr>,
                 host = None, matcher_name = None\<rparr>,
                \<lparr>info = Some \<lparr>name = Some ''Exposed panel'', info_severity = Some ''unknown'',
                              info_description = None\<rparr>,
                 host = Some ''https://shop.example'', matcher_name = None\<rparr>,
                \<lparr>info = None, host = None, matcher_name = None\<rparr>],
             manual_checks = None\<rparr>,
            \<lparr>results = None,
             manual_checks = Some [\<lparr>check_title = Some ''WARNING: old TLS'', content = None\<rparr>]\<rparr>]"
  let ?res = "\<lparr>res_subdomains = None, res_ports = None, res_directories = None,
         res_livehosts = None, res_vulnerabilities = Some ?bs\<rparr>"
  have lows: "lower ''Critical'' = ''critical''" "lower ''unknown'' = ''unknown''"
    by code_simp+
  have count_by_key: "length (filter (\<lambda>f. P (k f)) fs) = length (filter P (map k fs))"
    for P and k :: "finding \<Rightarrow> string" and fs
    by (induction fs) simp_all
  from findings_after_analysis [of ?res ?bs] obtain fs c
    where details: "vulnerabilities (analysis_details (analyze_results ?res)) = Some fs"
      and count: "vulnerability_count (analysis_summary (analyze_results ?res)) = Some c"
      and sev: "map severity fs = [Some ''Critical'', Some ''unknown'', Some ''info'', Some ''medium'']"
      and n: "n_critical c = length (filter (\<lambda>f. lower (dict_get (severity f) ''info'') = ''critical'') fs)"
        "n_high c = length (filter (\<lambda>f. lower (dict_get (severity f) ''info'') = ''high'') fs)"
        "n_medium c = length (filter (\<lambda>f. lower (dict_get (severity f) ''info'') = ''medium'') fs)"
        "n_low c = length (filter (\<lambda>f. lower (dict_get (severity f) ''info'') = ''low'') fs)"
        "n_info c = length (filter (\<lambda>f. lower (dict_get (severity f) ''info'')
                          \<notin> {''critical'', ''high'', ''medium'', ''low''}) fs)"
    by (auto simp: contains_iff_sublist [symmetric])
  have sevs: "map (\<lambda>f. lower (dict_get (severity f) ''info'')) fs
      = [''critical'', ''unknown'', ''info'', ''medium'']"
    using arg_cong [OF sev, of "map (\<lambda>s. lower (dict_get s ''info''))"]
    by (simp add: comp_def dict_get_def lows lower_severity_names)
  let ?k = "\<lambda>f. lower (dict_get (severity f) ''info'')"
  have numbers: "n_critical c = 1" "n_high c = 0" "n_medium c = 1" "n_low c = 0" "n_info c = 2"
    using count_by_key [of "\<lambda>s. s = ''critical''" ?k fs]
      count_by_key [of "\<lambda>s. s = ''high''" ?k fs]
      count_by_key [of "\<lambda>s. s = ''medium''" ?k fs]
      count_by_key [of "\<lambda>s. s = ''low''" ?k fs]
      count_by_key [of "\<lambda>s. s \<notin> {''critical'', ''high'', ''medium'', ''low''}" ?k fs]
    by (simp_all add: n sevs)
  have "c = \<lparr>n_critical = 1, n_high = 0, n_medium = 1, n_low = 0, n_info = 2\<rparr>"
    by (rule vuln_count.equality) (simp_all add: numbers)
  with details count sev show ?thesis by simp
qed

section \<open>Per-finding recommendation: the timeframe\<close>

text \<open>
  Claim C5. The recommendation built for a finding always carries one of the three
  timeframe texts, chosen by the finding's severity (compared in lower case):
  \<open>Immediate (within 24-48 hours)\<close> for critical and high,
  \<open>Short-term (within 1-2 weeks)\<close> for medium, \<open>Medium-term (within 1 month)\<close> for
  every other severity, in particular low and info.
\<close>

theorem timeframe_by_severity:
  "timeframe (get_recommendation_for_vulnerability vuln)
      \<in> {''Immediate (within 24-48 hours)'', ''Short-term (within 1-2 weeks)'',
          ''Medium-term (within 1 month)''}
   \<and> (\<forall>s. severity vuln = Some s \<longrightarrow>
         timeframe (get_recommendation_for_vulnerability vuln)
           = (if lower s = ''critical'' \<or> lower s = ''high''
              then ''Immediate (within 24-48 hours)''
              else if lower s = ''medium'' then ''Short-term (within 1-2 weeks)''
              else ''Medium-term (within 1 month)''))
   \<and> (severity vuln \<in> {Some ''critical'', Some ''high''} \<longrightarrow>
         timeframe (get_recommendation_for_vulnerability vuln) = ''Immediate (within 24-48 hours)'')
   \<and> (severity vuln = Some ''medium'' \<longrightarrow>
         timeframe (get_recommendation_for_vulnerability vuln) = ''Short-term (within 1-2 weeks)'')
   \<and> (severity vuln \<in> {Some ''low'', Some ''info''} \<longrightarrow>
         timeframe (get_recommendation_for_vulnerability vuln) = ''Medium-term (within 1 month)'')"
proof -
  have by_lower: "timeframe (get_recommendation_for_vulnerability vuln)
           = (if lower s = ''critical'' \<or> lower s = ''high''
              then ''Immediate (within 24-48 hours)''
              else if lower s = ''medium'' then ''Short-term (within 1-2 weeks)''
              else ''Medium-term (within 1 month)'')"
    if "severity vuln = Some s" for s
    using that by (simp add: get_recommendation_for_vulnerability_def Let_def dict_get_def)
  have absent: "timeframe (get_recommendation_for_vulnerability vuln) = ''Short-term (within 1-2 weeks)''"
    if "severity vuln = None"
    using that
    by (simp add: get_recommendation_for_vulnerability_def Let_def dict_get_def
          lower_severity_names)
  have range: "timeframe (get_recommendation_for_vulnerability vuln)
      \<in> {''Immediate (within 24-48 hours)'', ''Short-term (within 1-2 weeks)'',
          ''Medium-term (within 1 month)''}"
  proof (cases "severity vuln")
    case None
    then show ?thesis by (simp add: absent)
  next
    case (Some s)
    then show ?thesis by (simp add: by_lower)
  qed
  have high: "timeframe (get_recommendation_for_vulnerability vuln) = ''Immediate (within 24-48 hours)''"
    if "severity vuln \<in> {Some ''critical'', Some ''high''}"
    using that by (auto simp: by_lower lower_severity_names)
  have medium: "timeframe (get_recommendation_for_vulnerability vuln) = ''Short-term (within 1-2 weeks)''"
    if "severity vuln = Some ''medium''"
    using that by (simp add: by_lower lower_severity_names)
  have low: "timeframe (get_recommendation_for_vulnerability vuln) = ''Medium-term (within 1 month)''"
    if "severity vuln \<in> {Some ''low'', Some ''info''}"
    using that by (auto simp: by_lower lower_severity_names)
  from range by_lower high medium low show ?thesis by blast
qed

theorem timeframe_by_severity_witness:
  "timeframe (get_recommendation_for_vulnerability
       \<lparr>title = Some ''SQL Injection in login'', severity = Some ''critical'',
        description = Some '''', url = Some ''https://shop.example/login'', details = None,
        recommendation = None\<rparr>) = ''Immediate (within 24-48 hours)''
   \<and> timeframe (get_recommendation_for_vulnerability
       \<lparr>title = Some ''Missing header'', severity = Some ''medium'',
        description = Some '''', url = None, details = None,
        recommendation = None\<rparr>) = ''Short-term (within 1-2 weeks)''
   \<and> timeframe (get_recommendation_for_vulnerability
       \<lparr>title = Some ''Server banner'', severity = Some ''info'',
        description = Some '''', url = None, details = None,
        recommendation = None\<rparr>) = ''Medium-term (within 1 month)''"
  using
    timeframe_by_severity [of "\<lparr>title = Some ''SQL Injection in login'', severity = Some ''critical'',
        description = Some '''', url = Some ''https://shop.example/login'', details = None,
        recommendation = None\<rparr>"]
    timeframe_by_severity [of "\<lparr>title = Some ''Missing header'', severity = Some ''medium'',
        description = Some '''', url = None, details = None,
        recommendation = None\<rparr>"]
    timeframe_by_severity [of "\<lparr>title = Some ''Server banner'', severity = Some ''info'',
        description = Some '''', url = None, details = None,
        recommendation = None\<rparr>"]
  by (simp add: lower_severity_names)

section \<open>Per-finding recommendation: a finding without a severity\<close>

text \<open>
  Claim C9. For a finding with no severity field the recommendation builder assumes
  \<open>medium\<close>, so the timeframe is \<open>Short-term (within 1-2 weeks)\<close>, whereas the bucketing
  and the severity count assume \<open>info\<close> for the same finding: it is filed under low
  priority and counted as info.
\<close>

theorem missing_severity_is_medium:
  "severity vuln = None \<Longrightarrow>
     timeframe (get_recommendation_for_vulnerability vuln) = ''Short-term (within 1-2 weeks)''
     \<and> (\<exists>e. vuln_step r vuln = r\<lparr>low_priority := low_priority r @ [e]\<rparr>
             \<and> entry_recommendation e = Detailed (get_recommendation_for_vulnerability vuln))
     \<and> count_vuln c vuln = c\<lparr>n_info := n_info c + 1\<rparr>"
proof (intro conjI)
  assume absent: "severity vuln = None"
  show "timeframe (get_recommendation_for_vulnerability vuln) = ''Short-term (within 1-2 weeks)''"
    using absent
    by (simp add: get_recommendation_for_vulnerability_def Let_def dict_get_def
          lower_severity_names)
  have "vuln_step r vuln = r\<lparr>low_priority := low_priority r @
          [\<lparr>entry_title = dict_get (title vuln) ''Unnamed vulnerability'',
            entry_description = dict_get (description vuln) '''',
            entry_recommendation = Detailed (get_recommendation_for_vulnerability vuln)\<rparr>]\<rparr>"
    using absent by (simp add: vuln_step_def Let_def dict_get_def lower_severity_names)
  then show "\<exists>e. vuln_step r vuln = r\<lparr>low_priority := low_priority r @ [e]\<rparr>
             \<and> entry_recommendation e = Detailed (get_recommendation_for_vulnerability vuln)"
    by (intro exI [of _ "\<lparr>entry_title = dict_get (title vuln) ''Unnamed vulnerability'',
            entry_description = dict_get (description vuln) '''',
            entry_recommendation = Detailed (get_recommendation_for_vulnerability vuln)\<rparr>"]) simp
  show "count_vuln c vuln = c\<lparr>n_info := n_info c + 1\<rparr>"
    using absent by (simp add: count_vuln_def Let_def dict_get_def lower_severity_names)
qed

theorem missing_severity_is_medium_witness:
  "timeframe (get_recommendation_for_vulnerability
       \<lparr>title = Some ''Open redirect'', severity = None, description = None,
        url = None, details = None, recommendation = None\<rparr>)
     = ''Short-term (within 1-2 weeks)''
   \<and> count_vuln \<lparr>n_critical = 0, n_high = 0, n_medium = 0, n_low = 0, n_info = 0\<rparr>
       \<lparr>title = Some ''Open redirect'', severity = None, description = None,
        url = None, details = None, recommendation = None\<rparr>
     = \<lparr>n_critical = 0, n_high = 0, n_medium = 0, n_low = 0, n_info = 1\<rparr>"
  using missing_severity_is_medium
    [of "\<lparr>title = Some ''Open redirect'', severity = None, description = None,
        url = None, details = None, recommendation = None\<rparr>"
        "\<lparr>high_priority = [], medium_priority = [], low_priority = []\<rparr>"
        "\<lparr>n_critical = 0, n_high = 0, n_medium = 0, n_low = 0, n_info = 0\<rparr>"]
  by simp

section \<open>Recommendations from open ports\<close>

lemma str_int_21: "str_int 21 = ''21''"
  by (simp add: str_int_def str_nat.simps [of 21] str_nat.simps [of 2] digit_char_def)

text \<open>
  Claim C6. Generating recommendations from details that list open ports gives the
  buckets of the same details without the ports, plus the port entries: for every
  open-port record, in order, exactly one entry in the medium-priority bucket titled
  \<open>Remote Access Service on Port\<close> and the port number if the port is 22, 23, 3389 or
  5900, exactly one titled \<open>FTP Service on Port\<close> and the number if it is 20 or 21,
  exactly one in the low-priority bucket titled \<open>Web Service on Port\<close> and the number if
  it is 80 or 443, and none for any other port. The high-priority bucket is unchanged.
  (The run is taken on details whose interesting directories have a URL, as all
  details of an analysis have; otherwise the directory loop raises.)
\<close>

theorem port_entries:
  assumes "open_ports ad = Some ps"
    and "\<forall>ds. interesting_directories ad = Some ds \<longrightarrow> (\<forall>d \<in> set ds. \<exists>u. dir_url d = Some u)"
  shows "\<exists>r r0 earlier later pm pl.
     generate_recommendations ad = Inr r
     \<and> generate_recommendations (ad\<lparr>open_ports := None\<rparr>) = Inr r0
     \<and> high_priority r = high_priority r0
     \<and> medium_priority r0 = earlier @ later
     \<and> medium_priority r = earlier @ pm @ later
     \<and> low_priority r = low_priority r0 @ pl
     \<and> map entry_title pm
         = concat (map (\<lambda>p. if op_port p \<in> {22, 23, 3389, 5900}
                             then [''Remote Access Service on Port '' @ str_int (op_port p)]
                             else if op_port p \<in> {20, 21}
                             then [''FTP Service on Port '' @ str_int (op_port p)]
                             else []) ps)
     \<and> map entry_title pl
         = concat (map (\<lambda>p. if op_port p \<in> {80, 443}
                             then [''Web Service on Port '' @ str_int (op_port p)]
                             else []) ps)"
proof -
  from port_loop_adds [of ps] obtain pm pl
    where ports: "\<And>r. foldl port_step r ps
               = r\<lparr>medium_priority := medium_priority r @ pm,
                    low_priority := low_priority r @ pl\<rparr>"
      and pm: "map entry_title pm
         = concat (map (\<lambda>p. if op_port p \<in> {22, 23, 3389, 5900}
                             then [''Remote Access Service on Port '' @ str_int (op_port p)]
                             else if op_port p \<in> {20, 21}
                             then [''FTP Service on Port '' @ str_int (op_port p)]
                             else []) ps)"
      and pl: "map entry_title pl
         = concat (map (\<lambda>p. if op_port p \<in> {80, 443}
                             then [''Web Service on Port '' @ str_int (op_port p)]
                             else []) ps)"
    by blast
  define r1 where "r1 = (case vulnerabilities ad of
      None \<Rightarrow> \<lparr>high_priority = [], medium_priority = [], low_priority = []\<rparr>
    | Some vs \<Rightarrow> foldl vuln_step \<lparr>high_priority = [], medium_priority = [], low_priority = []\<rparr> vs)"
  show ?thesis
  proof (cases "interesting_directories ad")
    case None
    have "generate_recommendations ad
        = Inr (r1\<lparr>medium_priority := medium_priority r1 @ pm,
                  low_priority := low_priority r1 @ pl\<rparr>)"
      by (simp add: generate_recommendations_def Let_def assms(1) None ports r1_def)
    moreover have "generate_recommendations (ad\<lparr>open_ports := None\<rparr>) = Inr r1"
      by (simp add: generate_recommendations_def Let_def None r1_def)
    ultimately show ?thesis
      by (intro exI [of _ "r1\<lparr>medium_priority := medium_priority r1 @ pm,
                  low_priority := low_priority r1 @ pl\<rparr>"] exI [of _ r1]
            exI [of _ "medium_priority r1"] exI [of _ "[]"] exI [of _ pm] exI [of _ pl])
         (simp add: pm pl)
  next
    case (Some ds)
    with assms(2) have "\<forall>d \<in> set ds. \<exists>u. dir_url d = Some u"
      by blast
    from dir_loop_adds [OF this] obtain dh dm
      where dirs: "\<And>r. dir_loop r ds
               = Inr (r\<lparr>high_priority := high_priority r @ dh,
                         medium_priority := medium_priority r @ dm\<rparr>)"
      by blast
    have "generate_recommendations ad
        = Inr (r1\<lparr>high_priority := high_priority r1 @ dh,
                  medium_priority := medium_priority r1 @ pm @ dm,
                  low_priority := low_priority r1 @ pl\<rparr>)"
      by (simp add: generate_recommendations_def Let_def assms(1) Some ports dirs r1_def)
    moreover have "generate_recommendations (ad\<lparr>open_ports := None\<rparr>)
        = Inr (r1\<lparr>high_priority := high_priority r1 @ dh,
                  medium_priority := medium_priority r1 @ dm\<rparr>)"
      by (simp add: generate_recommendations_def Let_def Some dirs r1_def)
    ultimately show ?thesis
      by (intro exI [of _ "r1\<lparr>high_priority := high_priority r1 @ dh,
                  medium_priority := medium_priority r1 @ pm @ dm,
                  low_priority := low_priority r1 @ pl\<rparr>"]
            exI [of _ "r1\<lparr>high_priority := high_priority r1 @ dh,
                  medium_priority := medium_priority r1 @ dm\<rparr>"]
            exI [of _ "medium_priority r1"] exI [of _ dm] exI [of _ pm] exI [of _ pl])
         (simp add: pm pl)
  qed
qed

theorem port_entries_witness:
  "(case generate_recommendations (analysis_details (analyze_results
       \<lparr>res_subdomains = None,
        res_ports = Some \<lparr>scan_results = Some
          [\<lparr>host_name = Some ''10.0.0.5'',
            ports = Some [\<lparr>port = Some 22, service = Some ''ssh'', version = None\<rparr>,
                          \<lparr>port = Some 443, service = Some ''https'', version = None\<rparr>,
                          \<lparr>port = Some 8080, service = None, version = None\<rparr>]\<rparr>,
           \<lparr>host_name = Some ''10.0.0.6'',
            ports = Some [\<lparr>port = Some 21, service = Some ''ftp'', version = None\<rparr>]\<rparr>]\<rparr>,
        res_directories = None, res_livehosts = None, res_vulnerabilities = None\<rparr>)) of
      Inl err \<Rightarrow> False
    | Inr r \<Rightarrow>
        high_priority r = []
        \<and> map entry_title (medium_priority r)
            = [''Remote Access Service on Port 22'', ''FTP Service on Port 21'']
        \<and> map entry_title (low_priority r) = [''Web Service on Port 443''])"
proof -
  let ?res = "\<lparr>res_subdomains = None,
        res_ports = Some \<lparr>scan_results = Some
          [\<lparr>host_name = Some ''10.0.0.5'',
            ports = Some [\<lparr>port = Some 22, service = Some ''ssh'', version = None\<rparr>,
                          \<lparr>port = Some 443, service = Some ''https'', version = None\<rparr>,
                          \<lparr>port = Some 8080, service = None, version = None\<rparr>]\<rparr>,
           \<lparr>host_name = Some ''10.0.0.6'',
            ports = Some [\<lparr>port = Some 21, service = Some ''ftp'', version = None\<rparr>]\<rparr>]\<rparr>,
        res_directories = None, res_livehosts = None, res_vulnerabilities = None\<rparr>"
  let ?ad = "analysis_details (analyze_results ?res)"
  let ?ps = "[\<lparr>op_host = ''10.0.0.5'', op_port = 22, op_service = ''ssh'', op_version = ''unknown''\<rparr>,
              \<lparr>op_host = ''10.0.0.5'', op_port = 443, op_service = ''https'', op_version = ''unknown''\<rparr>,
              \<lparr>op_host = ''10.0.0.5'', op_port = 8080, op_service = ''unknown'', op_version = ''unknown''\<rparr>,
              \<lparr>op_host = ''10.0.0.6'', op_port = 21, op_service = ''ftp'', op_version = ''unknown''\<rparr>]"
  have ports: "open_ports ?ad = Some ?ps"
    by (simp add: analyze_results_def analyze_ports_def analyze_host_def dict_get_def)
  have dirs: "\<forall>ds. interesting_directories ?ad = Some ds \<longrightarrow> (\<forall>d \<in> set ds. \<exists>u. dir_url d = Some u)"
    by (simp add: analyze_results_def)
  have without: "generate_recommendations (?ad\<lparr>open_ports := None\<rparr>)
      = Inr \<lparr>high_priority = [], medium_priority = [], low_priority = []\<rparr>"
    by (simp add: generate_recommendations_def analyze_results_def)
  from port_entries [OF ports dirs] obtain r r0 earlier later pm pl
    where r: "generate_recommendations ?ad = Inr r"
      and r0: "generate_recommendations (?ad\<lparr>open_ports := None\<rparr>) = Inr r0"
      and high: "high_priority r = high_priority r0"
      and medium0: "medium_priority r0 = earlier @ later"
      and medium: "medium_priority r = earlier @ pm @ later"
      and low: "low_priority r = low_priority r0 @ pl"
      and pm: "map entry_title pm = [''Remote Access Service on Port 22'', ''FTP Service on Port 21'']"
      and pl: "map entry_title pl = [''Web Service on Port 443'']"
    by (auto simp: str_int_22 str_int_21 str_int_443)
  from r0 without have "r0 = \<lparr>high_priority = [], medium_priority = [], low_priority = []\<rparr>"
    by simp
  with high medium0 medium low pm pl
  have "high_priority r = []
        \<and> map entry_title (medium_priority r)
            = [''Remote Access Service on Port 22'', ''FTP Service on Port 21'']
        \<and> map entry_title (low_priority r) = [''Web Service on Port 443'']"
    by simp
  with r show ?thesis by simp
qed

section \<open>Recommendations from interesting directories\<close>

text \<open>
  Claim C7. Generating recommendations from details whose interesting directories are
  those kept by the interest classifier never raises, and gives the buckets of the same
  details without the directories, plus the directory entries at the end: for every
  interesting directory, in order, exactly one \<open>Sensitive Information Exposure\<close> entry
  in the high-priority bucket if its URL contains \<open>.git\<close> or \<open>.env\<close>, otherwise exactly
  one \<open>Admin Interface Exposed\<close> entry in the medium-priority bucket if its URL contains
  \<open>wp-admin\<close> or \<open>admin\<close>, and none otherwise; each entry names the URL in its
  description. The low-priority bucket is unchanged.
\<close>

theorem directory_entries:
  assumes "interesting_directories ad = Some (find_interesting_directories raw)"
  shows "\<exists>r r0 dh dm.
     generate_recommendations ad = Inr r
     \<and> generate_recommendations (ad\<lparr>interesting_directories := None\<rparr>) = Inr r0
     \<and> high_priority r = high_priority r0 @ dh
     \<and> medium_priority r = medium_priority r0 @ dm
     \<and> low_priority r = low_priority r0
     \<and> map (\<lambda>e. (entry_title e, entry_description e)) dh
         = concat (map (\<lambda>d. case dir_url d of
               None \<Rightarrow> []
             | Some u \<Rightarrow>
                 if sublist ''.git'' u \<or> sublist ''.env'' u
                 then [(''Sensitive Information Exposure'',
                        ''Found '' @ u @ '' which may expose sensitive information'')]
                 else []) (find_interesting_directories raw))
     \<and> map (\<lambda>e. (entry_title e, entry_description e)) dm
         = concat (map (\<lambda>d. case dir_url d of
               None \<Rightarrow> []
             | Some u \<Rightarrow>
                 if \<not> (sublist ''.git'' u \<or> sublist ''.env'' u)
                    \<and> (sublist ''wp-admin'' u \<or> sublist ''admin'' u)
                 then [(''Admin Interface Exposed'', ''Found potential admin interface at '' @ u)]
                 else []) (find_interesting_directories raw))"
proof -
  let ?ds = "find_interesting_directories raw"
  have "\<forall>d \<in> set ?ds. \<exists>u. dir_url d = Some u"
    using interesting_has_url by blast
  from dir_loop_adds [OF this] obtain dh dm
    where dirs: "\<And>r. dir_loop r ?ds
               = Inr (r\<lparr>high_priority := high_priority r @ dh,
                         medium_priority := medium_priority r @ dm\<rparr>)"
      and dh: "map (\<lambda>e. (entry_title e, entry_description e)) dh
         = concat (map (\<lambda>d. case dir_url d of
               None \<Rightarrow> []
             | Some u \<Rightarrow>
                 if sublist ''.git'' u \<or> sublist ''.env'' u
                 then [(''Sensitive Information Exposure'',
                        ''Found '' @ u @ '' which may expose sensitive information'')]
                 else []) ?ds)"
      and dm: "map (\<lambda>e. (entry_title e, entry_description e)) dm
         = concat (map (\<lambda>d. case dir_url d of
               None \<Rightarrow> []
             | Some u \<Rightarrow>
                 if \<not> (sublist ''.git'' u \<or> sublist ''.env'' u)
                    \<and> (sublist ''wp-admin'' u \<or> sublist ''admin'' u)
                 then [(''Admin Interface Exposed'', ''Found potential admin interface at '' @ u)]
                 else []) ?ds)"
    by blast
  define r2 where "r2 =
    (let r0 = \<lparr>high_priority = [], medium_priority = [], low_priority = []\<rparr>;
         r1 = (case vulnerabilities ad of None \<Rightarrow> r0 | Some vs \<Rightarrow> foldl vuln_step r0 vs)
     in case open_ports ad of None \<Rightarrow> r1 | Some ps \<Rightarrow> foldl port_step r1 ps)"
  have "generate_recommendations ad
      = Inr (r2\<lparr>high_priority := high_priority r2 @ dh,
                medium_priority := medium_priority r2 @ dm\<rparr>)"
    by (simp add: generate_recommendations_def Let_def assms dirs r2_def)
  moreover have "generate_recommendations (ad\<lparr>interesting_directories := None\<rparr>) = Inr r2"
    by (simp add: generate_recommendations_def Let_def r2_def)
  ultimately show ?thesis
    by (intro exI [of _ "r2\<lparr>high_priority := high_priority r2 @ dh,
                medium_priority := medium_priority r2 @ dm\<rparr>"] exI [of _ r2]
          exI [of _ dh] exI [of _ dm])
       (simp add: dh dm)
qed

theorem directory_entries_witness:
  "(case generate_recommendations (analysis_details (analyze_results
       \<lparr>res_subdomains = None, res_ports = None,
        res_directories = Some \<lparr>directory_scan = Some
          [\<lparr>dir_url = Some ''/.git/config'', status = Some 200\<rparr>,
           \<lparr>dir_url = Some ''/images/'', status = Some 200\<rparr>,
           \<lparr>dir_url = Some ''/wp-admin/'', status = Some 301\<rparr>]\<rparr>,
        res_livehosts = None, res_vulnerabilities = None\<rparr>)) of
      Inl err \<Rightarrow> False
    | Inr r \<Rightarrow>
        map (\<lambda>e. (entry_title e, entry_description e)) (high_priority r)
          = [(''Sensitive Information Exposure'',
              ''Found /.git/config which may expose sensitive information'')]
        \<and> map (\<lambda>e. (entry_title e, entry_description e)) (medium_priority r)
          = [(''Admin Interface Exposed'', ''Found potential admin interface at /wp-admin/'')]
        \<and> low_priority r = [])"
proof -
  let ?raw = "[\<lparr>dir_url = Some ''/.git/config'', status = Some 200\<rparr>,
           \<lparr>dir_url = Some ''/images/'', status = Some 200\<rparr>,
           \<lparr>dir_url = Some ''/wp-admin/'', status = Some 301\<rparr>]"
  let ?res = "\<lparr>res_subdomains = None, res_ports = None,
        res_directories = Some \<lparr>directory_scan = Some ?raw\<rparr>,
        res_livehosts = None, res_vulnerabilities = None\<rparr>"
  let ?ad = "analysis_details (analyze_results ?res)"
  have images: "lower ''/images/'' = ''/images/''"
    by (simp add: lower_def lower_char_def)
  have kept: "find_interesting_directories ?raw
      = [\<lparr>dir_url = Some ''/.git/config'', status = Some 200\<rparr>,
         \<lparr>dir_url = Some ''/wp-admin/'', status = Some 301\<rparr>]"
    by (simp add: dict_get_def lower_git_config lower_wp_admin images directory_keywords_def)
  have dirs: "interesting_directories ?ad = Some (find_interesting_directories ?raw)"
    by (simp add: analyze_results_def dict_get_def)
  have without: "generate_recommendations (?ad\<lparr>interesting_directories := None\<rparr>)
      = Inr \<lparr>high_priority = [], medium_priority = [], low_priority = []\<rparr>"
    by (simp add: generate_recommendations_def analyze_results_def)
  have urls: "sublist ''.git'' ''/.git/config''"
      "\<not> sublist ''.git'' ''/wp-admin/''" "\<not> sublist ''.env'' ''/wp-admin/''"
      "sublist ''wp-admin'' ''/wp-admin/''"
    by (simp_all add: contains_iff_sublist [symmetric])
  from directory_entries [OF dirs] obtain r r0 dh dm
    where r: "generate_recommendations ?ad = Inr r"
      and r0: "generate_recommendations (?ad\<lparr>interesting_directories := None\<rparr>) = Inr r0"
      and high: "high_priority r = high_priority r0 @ dh"
      and medium: "medium_priority r = medium_priority r0 @ dm"
      and low: "low_priority r = low_priority r0"
      and dh: "map (\<lambda>e. (entry_title e, entry_description e)) dh
          = [(''Sensitive Information Exposure'',
              ''Found /.git/config which may expose sensitive information'')]"
      and dm: "map (\<lambda>e. (entry_title e, entry_description e)) dm
          = [(''Admin Interface Exposed'', ''Found potential admin interface at /wp-admin/'')]"
    unfolding kept by (auto simp: urls)
  from r0 without have "r0 = \<lparr>high_priority = [], medium_priority = [], low_priority = []\<rparr>"
    by simp
  with high medium low dh dm
  have "map (\<lambda>e. (entry_title e, entry_description e)) (high_priority r)
          = [(''Sensitive Information Exposure'',
              ''Found /.git/config which may expose sensitive information'')]
        \<and> map (\<lambda>e. (entry_title e, entry_description e)) (medium_priority r)
          = [(''Admin Interface Exposed'', ''Found potential admin interface at /wp-admin/'')]
        \<and> low_priority r = []"
    by simp
  with r show ?thesis by simp
qed

section \<open>Directories matched in upper case only\<close>

lemma lower_GIT: "lower ''.GIT'' = ''.git''"
  by code_simp

text \<open>
  Claim C10. The interest classifier lower-cases the URL before looking for its
  keywords, the bucket rules look in the URL as it is. A directory whose URL contains
  \<open>.GIT\<close> and none of \<open>.git\<close>, \<open>.env\<close>, \<open>wp-admin\<close>, \<open>admin\<close> is therefore classified as
  interesting, and the directory loop passes over it without adding an entry.
\<close>

theorem uppercase_git_directory:
  assumes "dir_url d = Some u"
    and "sublist ''.GIT'' u"
    and "\<not> sublist ''.git'' u" and "\<not> sublist ''.env'' u"
    and "\<not> sublist ''wp-admin'' u" and "\<not> sublist ''admin'' u"
    and "d \<in> set ds"
  shows "d \<in> set (find_interesting_directories ds) \<and> dir_step r d = Inr r"
proof
  from assms(2) have "sublist ''.git'' (lower u)"
    using sublist_lower [of "''.GIT''" u] by (simp add: lower_GIT)
  moreover have "''.git'' \<in> set directory_keywords"
    by (simp add: directory_keywords_def)
  ultimately have "any_keyword directory_keywords (lower u)"
    unfolding any_keyword_iff by blast
  with assms(1,7) show "d \<in> set (find_interesting_directories ds)"
    by (simp add: find_interesting_directories_filter dict_get_def)
  from assms(1,3-6) show "dir_step r d = Inr r"
    by (simp add: dir_step_def contains_iff_sublist)
qed

theorem uppercase_git_directory_witness:
  "find_interesting_directories [\<lparr>dir_url = Some ''/.GIT/HEAD'', status = Some 200\<rparr>]
     = [\<lparr>dir_url = Some ''/.GIT/HEAD'', status = Some 200\<rparr>]
   \<and> dir_step \<lparr>high_priority = [], medium_priority = [], low_priority = []\<rparr>
        \<lparr>dir_url = Some ''/.GIT/HEAD'', status = Some 200\<rparr>
     = Inr \<lparr>high_priority = [], medium_priority = [], low_priority = []\<rparr>"
proof -
  let ?d = "\<lparr>dir_url = Some ''/.GIT/HEAD'', status = Some 200\<rparr>"
  let ?r = "\<lparr>high_priority = [], medium_priority = [], low_priority = []\<rparr>"
  have urls: "sublist ''.GIT'' ''/.GIT/HEAD''"
      "\<not> sublist ''.git'' ''/.GIT/HEAD''" "\<not> sublist ''.env'' ''/.GIT/HEAD''"
      "\<not> sublist ''wp-admin'' ''/.GIT/HEAD''" "\<not> sublist ''admin'' ''/.GIT/HEAD''"
    by (simp_all add: contains_iff_sublist [symmetric])
  have "?d \<in> set (find_interesting_directories [?d]) \<and> dir_step ?r ?d = Inr ?r"
    by (rule uppercase_git_directory [where u = "''/.GIT/HEAD''"]) (simp_all add: urls)
  moreover have "find_interesting_directories [?d] = [?d]"
    if "?d \<in> set (find_interesting_directories [?d])"
    using that by (simp split: if_splits)
  ultimately show ?thesis by simp
qed

end
